theory Spec2Isabelle
  imports Main "HOL-Library.Log_Nat"
begin

section \<open>JavaScript values\<close>

text \<open>
  A JavaScript number: a finite double, given by its exact rational value (the two zeros
  are one value here: the program never divides by a computed zero, so their sign is
  never observed), the two infinities, and NaN.
\<close>

datatype jsnum = Fin rat | PInf | NInf | NaN

text \<open>
  The values the argument parser stores in \<open>args\<close>: \<open>undefined\<close> for an option that
  was not given, a boolean for a bare flag, a number for a numeric-looking value, a string
  otherwise, an array for a repeated option.
\<close>

datatype jsval = Undefined | Bool bool | Num jsnum | Str string | Arr "jsval list"

fun truthy :: "jsval \<Rightarrow> bool" where
  "truthy Undefined = False"
| "truthy (Bool b) = b"
| "truthy (Num n) = (n \<noteq> Fin 0 \<and> n \<noteq> NaN)"
| "truthy (Str s) = (s \<noteq> [])"
| "truthy (Arr xs) = True"

text \<open>\<open>a || b\<close>.\<close>

definition js_or :: "jsval \<Rightarrow> jsval \<Rightarrow> jsval" where
  "js_or a b = (if truthy a then a else b)"

text \<open>The truthiness of \<open>v.length\<close>: strings and arrays have a length, other values none.\<close>

fun has_length :: "jsval \<Rightarrow> bool" where
  "has_length (Str s) = (s \<noteq> [])"
| "has_length (Arr xs) = (xs \<noteq> [])"
| "has_length _ = False"

text \<open>\<open>s.split(',')\<close>.\<close>

fun split_comma :: "string \<Rightarrow> string list" where
  "split_comma [] = [[]]"
| "split_comma (c # cs) =
     (if c = CHR '','' then [] # split_comma cs
      else (case split_comma cs of w # ws \<Rightarrow> (c # w) # ws | [] \<Rightarrow> [[c]]))"

text \<open>\<open>xs.join(sep)\<close> on an array of strings.\<close>

fun join :: "string \<Rightarrow> string list \<Rightarrow> string" where
  "join sep [] = []"
| "join sep [x] = x"
| "join sep (x # y # ys) = x @ sep @ join sep (y # ys)"

section \<open>Double-precision arithmetic\<close>

text \<open>\<open>2\<close> to an integer power, as a rational.\<close>

definition pow2 :: "int \<Rightarrow> rat" where
  "pow2 e = (if 0 \<le> e then 2 ^ nat e else 1 / 2 ^ nat (- e))"

text \<open>
  The binary exponent of a positive rational \<open>q\<close>: the \<open>e\<close> with
  \<open>2^e \<le> q < 2^(e+1)\<close>, found from the bit lengths of numerator and denominator.
\<close>

definition ilog2 :: "rat \<Rightarrow> int" where
  "ilog2 q =
     (let (a, b) = quotient_of q;
          d = int (floorlog 2 (nat a)) - int (floorlog 2 (nat b))
      in if pow2 d \<le> q then d else d - 1)"

text \<open>The nearest integer, ties to the even one.\<close>

definition round_even :: "rat \<Rightarrow> int" where
  "round_even x =
     (let f = \<lfloor>x\<rfloor>; r = x - of_int f
      in if r < 1 / 2 then f else if 1 / 2 < r then f + 1 else if even f then f else f + 1)"

text \<open>
  Rounding an exact result to a double (IEEE 754 binary64, round to nearest, ties to
  even): 53 significant bits, gradual underflow below \<open>2^-1022\<close>, and an infinity when
  the rounded magnitude reaches \<open>2^1024\<close>.
\<close>

definition rnd :: "rat \<Rightarrow> jsnum" where
  "rnd q =
     (if q = 0 then Fin 0
      else let p = max (ilog2 \<bar>q\<bar> - 52) (- 1074);
               r = of_int (round_even (q / pow2 p)) * pow2 p
           in if pow2 1024 \<le> \<bar>r\<bar> then (if 0 < q then PInf else NInf) else Fin r)"

text \<open>
  \<open>x / d\<close> where \<open>d\<close> is an image dimension, a non-negative integer: the only divisions
  the program makes.
\<close>

definition div_dim :: "jsnum \<Rightarrow> nat \<Rightarrow> jsnum" where
  "div_dim x d =
     (case x of
        NaN \<Rightarrow> NaN
      | PInf \<Rightarrow> PInf
      | NInf \<Rightarrow> NInf
      | Fin a \<Rightarrow>
          if d = 0 then (if a = 0 then NaN else if 0 < a then PInf else NInf)
          else rnd (a / of_nat d))"

text \<open>\<open>d * r\<close> where \<open>d\<close> is an image dimension.\<close>

definition mul_dim :: "nat \<Rightarrow> jsnum \<Rightarrow> jsnum" where
  "mul_dim d r =
     (case r of
        NaN \<Rightarrow> NaN
      | PInf \<Rightarrow> (if d = 0 then NaN else PInf)
      | NInf \<Rightarrow> (if d = 0 then NaN else NInf)
      | Fin b \<Rightarrow> rnd (of_nat d * b))"

text \<open>\<open>Math.min(x, y)\<close>: NaN if either argument is NaN, otherwise the smaller one.\<close>

fun math_min :: "jsnum \<Rightarrow> jsnum \<Rightarrow> jsnum" where
  "math_min NaN y = NaN"
| "math_min x NaN = NaN"
| "math_min NInf y = NInf"
| "math_min x NInf = NInf"
| "math_min PInf y = y"
| "math_min x PInf = x"
| "math_min (Fin a) (Fin b) = Fin (min a b)"

text \<open>
  The conversion to a number that \<open>/\<close> applies to its operands. On strings and arrays
  it is the language's string-to-number parser, taken as the parameter \<open>conv\<close>.
\<close>

definition to_number :: "(jsval \<Rightarrow> jsnum) \<Rightarrow> jsval \<Rightarrow> jsnum" where
  "to_number conv v =
     (case v of
        Num n \<Rightarrow> n
      | Bool b \<Rightarrow> Fin (if b then 1 else 0)
      | Undefined \<Rightarrow> NaN
      | _ \<Rightarrow> conv v)"

section \<open>Hex colours: hexToRgb and rgbToHex\<close>

text \<open>
  The character class \<open>[a-f\d]\<close> of the regular expression in \<open>hexToRgb\<close>, under the
  \<open>i\<close> flag: the decimal digits and the letters a to f in either case.
\<close>

definition is_hex_digit :: "char \<Rightarrow> bool" where
  "is_hex_digit c = (c \<in> set ''0123456789abcdefABCDEF'')"

text \<open>The value of one hexadecimal digit, as \<open>parseInt(_, 16)\<close> reads it.\<close>

fun index_of :: "char \<Rightarrow> string \<Rightarrow> nat" where
  "index_of c [] = 0"
| "index_of c (x # xs) = (if c = x then 0 else Suc (index_of c xs))"

definition hex_val :: "char \<Rightarrow> nat" where
  "hex_val c =
     (let i = index_of c ''0123456789abcdefABCDEF''
      in if i < 16 then i else if i < 22 then i - 6 else 0)"

text \<open>
  \<open>parseInt(s, 16)\<close> on a string of hexadecimal digits (the only strings the capture
  groups of \<open>hexToRgb\<close> hold).
\<close>

definition parseInt16 :: "string \<Rightarrow> nat" where
  "parseInt16 s = foldl (\<lambda>acc c. 16 * acc + hex_val c) 0 s"

text \<open>
  \<open>hexToRgb\<close>: the pattern \<open>/^#?([a-f\d]{2})([a-f\d]{2})([a-f\d]{2})$/i\<close> accepts an
  optional leading \<open>#\<close> followed by exactly six hexadecimal digits and nothing else; the
  result is the array of the three parsed groups, or \<open>null\<close> (\<open>None\<close>) when the pattern
  does not match.
\<close>

definition hexToRgb :: "string \<Rightarrow> nat list option" where
  "hexToRgb hex =
     (let body = (case hex of c # rest \<Rightarrow> if c = CHR ''#'' then rest else hex | [] \<Rightarrow> hex)
      in case body of
           [a, b, c, d, e, f] \<Rightarrow>
             if list_all is_hex_digit body
             then Some [parseInt16 [a, b], parseInt16 [c, d], parseInt16 [e, f]]
             else None
         | _ \<Rightarrow> None)"

text \<open>The digit \<open>Number.prototype.toString(16)\<close> writes for a value below 16.\<close>

definition hex_digit :: "nat \<Rightarrow> char" where
  "hex_digit n = ''0123456789abcdef'' ! n"

text \<open>\<open>n.toString(16)\<close> for a non-negative integer: lower case, no leading zero.\<close>

fun toString16 :: "nat \<Rightarrow> string" where
  "toString16 n = (if n < 16 then [hex_digit n] else toString16 (n div 16) @ [hex_digit (n mod 16)])"

declare toString16.simps [simp del]

text \<open>
  \<open>rgbToHex\<close>: each channel \<open>x\<close> goes through \<open>parseInt(x).toString(16)\<close> and is padded
  with one \<open>0\<close> when a single digit; the pieces are joined after \<open>#\<close>. Channels are
  non-negative integers below \<open>10^21\<close>, where \<open>parseInt\<close> of a number returns it.
\<close>

definition pad2 :: "string \<Rightarrow> string" where
  "pad2 x = (if length x = 1 then CHR ''0'' # x else x)"

definition rgbToHex :: "nat list \<Rightarrow> string" where
  "rgbToHex rgb = CHR ''#'' # concat (map (\<lambda>x. pad2 (toString16 x)) rgb)"

definition paletteToHex :: "nat list list \<Rightarrow> string list" where
  "paletteToHex palette = map rgbToHex palette"

text \<open>
  The strings the pattern of \<open>hexToRgb\<close> is meant for: six hexadecimal digits, with or
  without a leading \<open>#\<close>; and the digits \<open>toString(16)\<close> writes.
\<close>

definition six_hex_digits :: "string \<Rightarrow> bool" where
  "six_hex_digits t = (length t = 6 \<and> list_all is_hex_digit t)"

definition six_hex_pattern :: "string \<Rightarrow> bool" where
  "six_hex_pattern s =
     (six_hex_digits s \<or> (case s of c # t \<Rightarrow> c = CHR ''#'' \<and> six_hex_digits t | [] \<Rightarrow> False))"

definition is_lower_hex_digit :: "char \<Rightarrow> bool" where
  "is_lower_hex_digit c = (c \<in> set ''0123456789abcdef'')"

section \<open>The program's surroundings\<close>

text \<open>
  The parsed command line (\<open>args\<close>): the options either entry point reads. An option
  that was not given is \<open>Undefined\<close>.
\<close>

record args =
  arg_palette :: jsval
  arg_preset :: jsval
  arg_p :: jsval
  arg_serpentine :: jsval
  arg_silent :: jsval
  arg_i :: jsval
  arg_l :: jsval
  arg_o :: jsval
  arg_s :: jsval
  arg_scale :: jsval
  arg_v :: jsval

text \<open>
  The module \<open>palettes.js\<close> is not among the sources; it is a parameter. \<open>entry\<close> is the
  property read \<open>palettes[k]\<close> for whatever value \<open>k\<close> the command line gave. It reads
  \<^item> \<open>Missing\<close>: \<open>undefined\<close>, when the object has no such member;
  \<^item> \<open>Hex_list cs\<close>: the array of hex strings stored under a preset's name;
  \<^item> \<open>Other_member\<close>: a member every object inherits (under a name such as
    \<open>constructor\<close>, \<open>toString\<close> or \<open>__proto__\<close>): a function or an object, truthy, and
    without a \<open>map\<close> or \<open>join\<close> method.
  \<open>names\<close> is \<open>Object.keys(palettes)\<close>.
\<close>

datatype table_read = Missing | Hex_list "string list" | Other_member

record preset_table =
  entry :: "jsval \<Rightarrow> table_read"
  names :: "string list"

text \<open>The output path: \<open>args.o\<close>, or the input path with a suffix appended.\<close>

datatype out_path = Given jsval | Suffixed jsval string

text \<open>
  The lines written to the console. A line that interpolates a value other than a string
  carries the value; a line with a byte count carries the count that \<open>formatBytes\<close>
  formats.
\<close>

datatype line =
    Usage
  | Available_presets
  | Preset_name string
  | Preset_colors string
  | Unknown_preset jsval
  | Dithering jsval
  | Input_size nat
  | Could_not_read jsval
  | Output_size nat
  | Percentage_reduction nat nat
  | Could_not_read_output out_path
  | Palette_line string
  | Final_palette_line string
  | Dithered_line out_path

text \<open>
  The options handed to \<open>new RgbQuant\<close> that depend on the command line; the other
  fields are the constants of \<open>rgbQuantOptions\<close> (\<open>colors: 8\<close>,
  \<open>dithKern: 'FloydSteinberg'\<close> and so on).
\<close>

record quant_options =
  dithSerp :: jsval
  palette :: "nat list option list"

datatype error = TypeError

text \<open>
  What a run does, in order: console lines, calls into the file system, the image library
  and the quantizer, and how it ends when it ends by an exception. The quantizer
  (\<open>rgbquant\<close>), the canvas and the GIF encoder are libraries outside the repository: the
  model records that they are called and with what, and takes from the \<open>world\<close> below
  whether a call returns or throws, not what it computes.
  \<^item> \<open>Stat_input\<close>, \<open>Stat_output\<close>: \<open>fs.statSync\<close> on the input and on the output path;
  \<^item> \<open>Load_image\<close>: \<open>loadImage(inputPath)\<close>; \<open>Rejected\<close>: its promise rejects, and nothing
    handles the rejection;
  \<^item> \<open>Create_canvas\<close>, \<open>Draw_image\<close>: \<open>createCanvas(width, height)\<close> and
    \<open>ctx.drawImage(image, 0, 0, width, height)\<close>;
  \<^item> \<open>New_RgbQuant\<close>, \<open>Quant_sample\<close>, \<open>Quant_palette\<close>, \<open>Quant_reduce\<close>: the constructor,
    \<open>quant.sample(canvas)\<close>, \<open>quant.palette(true)\<close> and \<open>quant.reduce(canvas)\<close>;
  \<^item> \<open>Put_image_data\<close>: \<open>ctx.getImageData(0, 0, width, height)\<close>, the copy of the reduced
    pixels into it, and \<open>ctx.putImageData\<close>;
  \<^item> \<open>Write_png\<close>: \<open>fs.writeFileSync(outputPath, canvas.toBuffer())\<close>;
  \<^item> \<open>Encode_gif\<close>: the GIF encoder of the given size, piped to the output path, fed the
    one frame and finished;
  \<^item> \<open>Throw\<close>: an exception of the program's own evaluation, which nothing catches;
  \<^item> \<open>Threw_in_library\<close>: the library call just made threw, which nothing catches
    either.
\<close>

datatype action =
    Print line
  | Stat_input jsval
  | Load_image jsval
  | Rejected
  | Create_canvas jsnum jsnum
  | Draw_image jsnum jsnum
  | New_RgbQuant quant_options
  | Quant_sample
  | Quant_palette
  | Quant_reduce
  | Put_image_data jsnum jsnum
  | Write_png out_path
  | Encode_gif out_path jsnum jsnum
  | Stat_output out_path
  | Throw error
  | Threw_in_library

text \<open>
  What the libraries and the file system answer during one run: the size \<open>fs.statSync\<close>
  reports for the input (\<open>None\<close>: it throws), the width and height of the image
  \<open>loadImage\<close> resolves to (\<open>None\<close>: the promise rejects), whether a call into the
  canvas, the quantizer, the encoder or the writing of the file returns (\<open>False\<close>: it
  throws), the palette \<open>quant.palette(true)\<close> returns, the size reported for the output
  file once written, and the string-to-number conversion of the language.
\<close>

record world =
  palettes :: preset_table
  statSync :: "jsval \<Rightarrow> nat option"
  loadImage :: "jsval \<Rightarrow> (nat \<times> nat) option"
  returns :: "action \<Rightarrow> bool"
  quantPalette :: "nat list list"
  statOutput :: "nat option"
  toNumber :: "jsval \<Rightarrow> jsnum"

text \<open>
  Library calls made one after the other, none of them inside a \<open>try\<close>: each call is
  recorded; when one throws, the run ends there and nothing that follows it happens.
\<close>

fun calls :: "(action \<Rightarrow> bool) \<Rightarrow> action list \<Rightarrow> action list \<Rightarrow> action list" where
  "calls ok [] rest = rest"
| "calls ok (x # xs) rest = x # (if ok x then calls ok xs rest else [Threw_in_library])"

section \<open>Palette selection\<close>

text \<open>
  The guard before the selection: a truthy preset name whose read \<open>palettes[name]\<close> is
  falsy, that is \<open>undefined\<close>, makes \<open>dither\<close> print the name and return.
\<close>

definition preset_unknown :: "preset_table \<Rightarrow> jsval \<Rightarrow> bool" where
  "preset_unknown tbl name = (truthy name \<and> entry tbl name = Missing)"

text \<open>
  The value of the palette once selected: an array of strings, or the falsy value that
  \<open>&&\<close> let through (an empty string, zero, \<open>false\<close>), which \<open>??\<close> does not replace,
  or the inherited member a preset name read.
\<close>

datatype palette_val = Colors "string list" | Scalar jsval | Member

text \<open>
  \<open>args.palette && args.palette.split(',')\<close>; \<open>None\<close> is \<open>undefined\<close>. A truthy value
  that is not a string has no \<open>split\<close> method, and the call throws.
\<close>

definition explicit_colors :: "jsval \<Rightarrow> error + palette_val option" where
  "explicit_colors pal =
     (if \<not> truthy pal then (if pal = Undefined then Inr None else Inr (Some (Scalar pal)))
      else case pal of Str s \<Rightarrow> Inr (Some (Colors (split_comma s))) | _ \<Rightarrow> Inl TypeError)"

text \<open>\<open>name && palettes[name]\<close>; \<open>None\<close> is \<open>undefined\<close>.\<close>

definition preset_colors :: "preset_table \<Rightarrow> jsval \<Rightarrow> palette_val option" where
  "preset_colors tbl name =
     (if \<not> truthy name then (if name = Undefined then None else Some (Scalar name))
      else case entry tbl name of
             Missing \<Rightarrow> None
           | Hex_list cs \<Rightarrow> Some (Colors cs)
           | Other_member \<Rightarrow> Some Member)"

text \<open>
  \<open>(args.palette && args.palette.split(',')) ?? (name && palettes[name]) ?? []\<close>, where
  \<open>name\<close> is \<open>args.preset\<close> in \<open>index.js\<close> and \<open>presetName\<close> in the GIF entry point.
\<close>

definition select_palette :: "preset_table \<Rightarrow> jsval \<Rightarrow> jsval \<Rightarrow> error + palette_val" where
  "select_palette tbl pal name =
     (case explicit_colors pal of
        Inl e \<Rightarrow> Inl e
      | Inr (Some v) \<Rightarrow> Inr v
      | Inr None \<Rightarrow>
          (case preset_colors tbl name of Some v \<Rightarrow> Inr v | None \<Rightarrow> Inr (Colors [])))"

text \<open>
  Lines 56 to 71 of either entry point as one step: return on an unknown preset, or the
  selected palette, or the exception of \<open>split\<close>.
\<close>

datatype selection = Abort_unknown_preset | Raised error | Selected palette_val

definition palette_stage :: "preset_table \<Rightarrow> jsval \<Rightarrow> jsval \<Rightarrow> selection" where
  "palette_stage tbl pal name =
     (if preset_unknown tbl name then Abort_unknown_preset
      else case select_palette tbl pal name of Inl e \<Rightarrow> Raised e | Inr v \<Rightarrow> Selected v)"

text \<open>The preset name each entry point uses.\<close>

definition preset_name_index :: "args \<Rightarrow> jsval" where
  "preset_name_index a = arg_preset a"

definition preset_name_gif :: "args \<Rightarrow> jsval" where
  "preset_name_gif a = js_or (arg_preset a) (arg_p a)"

section \<open>Canvas size\<close>

text \<open>
  The width and height given to \<open>createCanvas\<close> (the same lines in both entry points):
  \<open>scale = args.s || args.scale\<close>, \<open>ratio = Math.min((scale || w) / w, (scale || h) / h)\<close>,
  \<open>width = w * ratio\<close>, \<open>height = h * ratio\<close>. The image's \<open>width\<close> and \<open>height\<close> are
  non-negative integers (exact as doubles below \<open>2^53\<close>).
\<close>

definition canvas_size :: "(jsval \<Rightarrow> jsnum) \<Rightarrow> args \<Rightarrow> nat \<times> nat \<Rightarrow> jsnum \<times> jsnum" where
  "canvas_size conv a img =
     (case img of (iw, ih) \<Rightarrow>
        let scale = js_or (arg_s a) (arg_scale a);
            modifiedWidth = js_or scale (Num (Fin (of_nat iw)));
            modifiedHeight = js_or scale (Num (Fin (of_nat ih)));
            ratio = math_min (div_dim (to_number conv modifiedWidth) iw)
                             (div_dim (to_number conv modifiedHeight) ih)
        in (mul_dim iw ratio, mul_dim ih ratio))"

section \<open>The PNG entry point (\<open>index.js\<close>)\<close>

text \<open>
  The names of the presets, one line each, followed by the colours of each when
  \<open>verbose\<close>; \<open>quiet\<close> suppresses the lines (the GIF entry point's \<open>status\<close>).
  \<open>palettes[name].join\<close> throws when the table has no array under the name.
\<close>

definition status :: "bool \<Rightarrow> line \<Rightarrow> action list" where
  "status quiet l = (if quiet then [] else [Print l])"

fun list_names :: "preset_table \<Rightarrow> bool \<Rightarrow> bool \<Rightarrow> string list \<Rightarrow> action list" where
  "list_names tbl quiet verbose [] = []"
| "list_names tbl quiet verbose (n # ns) =
     status quiet (Preset_name n) @
     (if verbose then
        (case entry tbl (Str n) of
           Hex_list cs \<Rightarrow>
             status quiet (Preset_colors (join '', '' cs)) @ list_names tbl quiet verbose ns
         | _ \<Rightarrow> [Throw TypeError])
      else list_names tbl quiet verbose ns)"

text \<open>
  The calls that quantize the canvas, the same in both entry points: the constructor
  with the selected palette, every entry converted by \<open>hexToRgb\<close>, then \<open>sample\<close>,
  \<open>palette\<close>, \<open>reduce\<close> and the copy of the reduced pixels back into the canvas.
\<close>

definition quantizing :: "args \<Rightarrow> string list \<Rightarrow> jsnum \<Rightarrow> jsnum \<Rightarrow> action list" where
  "quantizing a cs width height =
     [New_RgbQuant \<lparr>dithSerp = js_or (arg_serpentine a) (Bool False),
                    palette = map hexToRgb cs\<rparr>,
      Quant_sample, Quant_palette, Quant_reduce,
      Put_image_data width height]"

text \<open>
  The body of the \<open>then\<close> callback, run once the image is loaded: the canvas, the
  quantizing calls, the write of the PNG, and the closing lines. \<open>palette.map\<close> throws
  when the palette is not an array. Nothing in the callback catches an exception but the
  \<open>try\<close> around the last \<open>statSync\<close>.
\<close>

definition on_image_index ::
    "world \<Rightarrow> args \<Rightarrow> palette_val \<Rightarrow> jsval \<Rightarrow> nat \<times> nat \<Rightarrow> action list" where
  "on_image_index w a pal inputPath img =
     (case canvas_size (toNumber w) a img of (width, height) \<Rightarrow>
        calls (returns w) [Create_canvas width height, Draw_image width height]
          (case pal of
             Colors cs \<Rightarrow>
               let outputPath =
                     (if truthy (arg_o a) then Given (arg_o a)
                      else Suffixed inputPath ''-dither.png'')
               in calls (returns w) (quantizing a cs width height @ [Write_png outputPath])
                    [Stat_output outputPath,
                     Print (case statOutput w of
                              Some n \<Rightarrow> Output_size n
                            | None \<Rightarrow> Could_not_read_output outputPath),
                     Print (Palette_line (join '','' (paletteToHex (quantPalette w)))),
                     Print (Dithered_line outputPath)]
           | _ \<Rightarrow> [Throw TypeError]))"

text \<open>\<open>dither()\<close> of \<open>index.js\<close>.\<close>

definition dither_index :: "world \<Rightarrow> args \<Rightarrow> action list" where
  "dither_index w a =
     (case palette_stage (palettes w) (arg_palette a) (preset_name_index a) of
        Abort_unknown_preset \<Rightarrow>
          Print (Unknown_preset (arg_preset a)) # Print Available_presets #
          list_names (palettes w) False False (names (palettes w))
      | Raised e \<Rightarrow> [Throw e]
      | Selected pal \<Rightarrow>
          let inputPath = js_or (arg_i a) (Str [])
          in if has_length inputPath then
               [Print (Dithering inputPath), Stat_input inputPath,
                Print (case statSync w inputPath of
                         Some n \<Rightarrow> Input_size n
                       | None \<Rightarrow> Could_not_read inputPath),
                Load_image inputPath] @
               (case loadImage w inputPath of
                  None \<Rightarrow> [Rejected]
                | Some img \<Rightarrow> on_image_index w a pal inputPath img)
             else [])"

text \<open>The top level of \<open>index.js\<close>: list the presets, or dither, or print the usage.\<close>

definition main_index :: "world \<Rightarrow> args \<Rightarrow> action list" where
  "main_index w a =
     (if truthy (arg_l a) then
        Print Available_presets #
        list_names (palettes w) False (truthy (arg_v a)) (names (palettes w))
      else if truthy (arg_i a) then dither_index w a
      else [Print Usage])"

section \<open>The GIF entry point\<close>

text \<open>\<open>listPresets()\<close>.\<close>

definition listPresets :: "preset_table \<Rightarrow> bool \<Rightarrow> bool \<Rightarrow> action list" where
  "listPresets tbl quiet verbose =
     status quiet Available_presets @ list_names tbl quiet verbose (names tbl)"

text \<open>
  The \<open>then\<close> callback of the GIF entry point, with the body of its \<open>setTimeout\<close>
  callback at the end.
\<close>

definition on_image_gif ::
    "world \<Rightarrow> args \<Rightarrow> bool \<Rightarrow> palette_val \<Rightarrow> jsval \<Rightarrow> nat \<Rightarrow> nat \<times> nat \<Rightarrow> action list" where
  "on_image_gif w a quiet pal inputPath inputSize img =
     (case canvas_size (toNumber w) a img of (width, height) \<Rightarrow>
        calls (returns w) [Create_canvas width height, Draw_image width height]
          (case pal of
             Colors cs \<Rightarrow>
               let outputPath =
                     (if truthy (arg_o a) then Given (arg_o a)
                      else Suffixed inputPath ''-dither.gif'')
               in calls (returns w)
                    (quantizing a cs width height @ [Encode_gif outputPath width height])
                    ([Stat_output outputPath] @
                     (case statOutput w of
                        Some n \<Rightarrow>
                          status quiet (Output_size n) @
                          status quiet (Percentage_reduction inputSize n)
                      | None \<Rightarrow> status quiet (Could_not_read_output outputPath)) @
                     status quiet
                       (Final_palette_line (join '','' (paletteToHex (quantPalette w)))) @
                     status quiet (Dithered_line outputPath))
           | _ \<Rightarrow> [Throw TypeError]))"

text \<open>\<open>dither()\<close> of the GIF entry point.\<close>

definition dither_gif :: "world \<Rightarrow> args \<Rightarrow> action list" where
  "dither_gif w a =
     (let quiet = truthy (js_or (arg_silent a) (Bool False))
      in case palette_stage (palettes w) (arg_palette a) (preset_name_gif a) of
           Abort_unknown_preset \<Rightarrow>
             status quiet (Unknown_preset (preset_name_gif a)) @
             listPresets (palettes w) quiet (truthy (arg_v a))
         | Raised e \<Rightarrow> [Throw e]
         | Selected pal \<Rightarrow>
             let inputPath = js_or (arg_i a) (Str [])
             in if has_length inputPath then
                  status quiet (Dithering inputPath) @ [Stat_input inputPath] @
                  (case statSync w inputPath of
                     None \<Rightarrow> status quiet (Could_not_read inputPath)
                   | Some n \<Rightarrow>
                       status quiet (Input_size n) @ [Load_image inputPath] @
                       (case loadImage w inputPath of
                          None \<Rightarrow> [Rejected]
                        | Some img \<Rightarrow> on_image_gif w a quiet pal inputPath n img))
                else [])"

text \<open>The top level of the GIF entry point; \<open>silent\<close> is still \<open>false\<close> here.\<close>

definition main_gif :: "world \<Rightarrow> args \<Rightarrow> action list" where
  "main_gif w a =
     (if truthy (arg_l a) then listPresets (palettes w) False (truthy (arg_v a))
      else if truthy (arg_i a) then dither_gif w a
      else status False Usage)"

section \<open>Reading a run\<close>

text \<open>The palettes handed to the quantizer in a run, in order.\<close>

fun given_palettes :: "action list \<Rightarrow> nat list option list list" where
  "given_palettes [] = []"
| "given_palettes (New_RgbQuant q # xs) = palette q # given_palettes xs"
| "given_palettes (x # xs) = given_palettes xs"

text \<open>
  The actions that reach beyond the console: every call into the file system, the image
  library, the quantizer or an encoder.
\<close>

fun beyond_console :: "action \<Rightarrow> bool" where
  "beyond_console (Print l) = False"
| "beyond_console (Throw e) = False"
| "beyond_console x = True"


text \<open>Whether a value of \<open>args\<close> is a string.\<close>

fun is_str :: "jsval \<Rightarrow> bool" where
  "is_str (Str s) = True"
| "is_str v = False"

fun is_print :: "action \<Rightarrow> bool" where
  "is_print (Print l) = True"
| "is_print x = False"

section \<open>Sample inputs\<close>

text \<open>
  A command line with no option given, a table with one preset, and a run's answers: the
  input is 1000 bytes, the image 2 by 2, and every library call returns but the
  constructor of the quantizer on a palette with a \<open>null\<close> entry.
\<close>

definition no_args :: args where
  "no_args =
     \<lparr>arg_palette = Undefined, arg_preset = Undefined, arg_p = Undefined,
      arg_serpentine = Undefined, arg_silent = Undefined, arg_i = Undefined,
      arg_l = Undefined, arg_o = Undefined, arg_s = Undefined, arg_scale = Undefined,
      arg_v = Undefined\<rparr>"

definition sample_table :: preset_table where
  "sample_table =
     \<lparr>entry = (\<lambda>k. if k = Str ''mono'' then Hex_list [''#000000'', ''#ffffff'']
                   else if k = Str ''constructor'' then Other_member
                   else Missing),
      names = [''mono'']\<rparr>"

definition sample_world :: world where
  "sample_world =
     \<lparr>palettes = sample_table,
      statSync = (\<lambda>f. Some 1000),
      loadImage = (\<lambda>f. Some (2, 2)),
      returns = (\<lambda>x. case x of New_RgbQuant q \<Rightarrow> None \<notin> set (palette q) | _ \<Rightarrow> True),
      quantPalette = [[0, 0, 0], [255, 255, 255]],
      statOutput = Some 500,
      toNumber = (\<lambda>v. NaN)\<rparr>"

text \<open>
  Command lines: only an input; a palette with a malformed colour; a palette the argument
  parser read as a number; a palette with an unknown preset; a palette with a known
  preset; an unknown preset with \<open>--silent\<close>; a preset given by \<open>-p\<close>; a scale.
\<close>

definition plain_args :: args where
  "plain_args = no_args\<lparr>arg_i := Str ''in.png''\<rparr>"


definition numeric_args :: args where
  "numeric_args = no_args\<lparr>arg_palette := Num (Fin 123456), arg_i := Str ''in.png''\<rparr>"

definition clash_args :: args where
  "clash_args =
     no_args\<lparr>arg_palette := Str ''#000000,#ffffff'', arg_preset := Str ''nope'',
             arg_i := Str ''in.png''\<rparr>"

definition override_args :: args where
  "override_args =
     no_args\<lparr>arg_palette := Str ''#ff0000'', arg_preset := Str ''mono'', arg_i := Str ''in.png''\<rparr>"

definition silent_unknown_args :: args where
  "silent_unknown_args =
     no_args\<lparr>arg_preset := Str ''nope'', arg_silent := Bool True, arg_i := Str ''in.png''\<rparr>"

definition alias_args :: args where
  "alias_args = no_args\<lparr>arg_p := Str ''mono'', arg_i := Str ''in.png''\<rparr>"

definition scaled_args :: args where
  "scaled_args = no_args\<lparr>arg_s := Num (Fin 500), arg_i := Str ''in.png''\<rparr>"

section \<open>Properties of the hex conversions\<close>

lemma hex_val_less: "hex_val c < 16"
  by (simp add: hex_val_def)

lemma hex_digit_hex_val: "is_lower_hex_digit c \<Longrightarrow> hex_digit (hex_val c) = c"
  unfolding is_lower_hex_digit_def by (auto simp: hex_val_def hex_digit_def)

lemma parseInt16_pair: "parseInt16 [a, b] = 16 * hex_val a + hex_val b"
  by (simp add: parseInt16_def)

lemma parseInt16_pair_le: "parseInt16 [a, b] \<le> 255"
  using hex_val_less [of a] hex_val_less [of b] by (simp add: parseInt16_pair)

lemma toString16_pair:
  assumes "x < 16" "y < 16"
  shows "pad2 (toString16 (16 * x + y)) = [hex_digit x, hex_digit y]"
proof (cases "x = 0")
  case True
  with assms show ?thesis by (simp add: toString16.simps [of y] pad2_def hex_digit_def)
next
  case False
  with assms have "\<not> 16 * x + y < 16" by simp
  moreover from assms have "(16 * x + y) div 16 = x" "(16 * x + y) mod 16 = y" by simp_all
  ultimately have "toString16 (16 * x + y) = toString16 x @ [hex_digit y]"
    by (simp add: toString16.simps [of "16 * x + y"])
  with assms show ?thesis by (simp add: toString16.simps [of x] pad2_def)
qed

lemma byte_roundtrip:
  assumes "is_lower_hex_digit a" "is_lower_hex_digit b"
  shows "pad2 (toString16 (parseInt16 [a, b])) = [a, b]"
  using toString16_pair [OF hex_val_less [of a] hex_val_less [of b]] assms
  by (simp add: parseInt16_pair hex_digit_hex_val)

lemma lower_is_hex: "is_lower_hex_digit c \<Longrightarrow> is_hex_digit c"
  by (auto simp: is_lower_hex_digit_def is_hex_digit_def)

lemma length6E:
  assumes "length t = 6"
  obtains a b c d e f where "t = [a, b, c, d, e, f]"
  using assms by (auto simp: eval_nat_numeral length_Suc_conv)


lemma hexToRgb_hash:
  "hexToRgb (CHR ''#'' # [a, b, c, d, e, f]) =
     (if list_all is_hex_digit [a, b, c, d, e, f]
      then Some [parseInt16 [a, b], parseInt16 [c, d], parseInt16 [e, f]] else None)"
  by (simp add: hexToRgb_def)


lemma hexToRgb_None: "\<not> six_hex_pattern s \<Longrightarrow> hexToRgb s = None"
  by (auto simp: hexToRgb_def six_hex_pattern_def six_hex_digits_def Let_def
           split: list.splits if_splits)


text \<open>
  Claim C8. For every string made of \<open>#\<close> and six lower-case hexadecimal digits,
  \<open>hexToRgb\<close> returns three channels, each between 0 and 255, and \<open>rgbToHex\<close> of
  them is the string again; for every string that is not six hexadecimal digits with an
  optional leading \<open>#\<close>, \<open>hexToRgb\<close> returns \<open>null\<close>.
\<close>

theorem hexToRgb_rgbToHex_roundtrip:
  "(length t = 6 \<and> list_all is_lower_hex_digit t \<longrightarrow>
      (\<exists>r g b. hexToRgb (CHR ''#'' # t) = Some [r, g, b]
         \<and> r \<le> 255 \<and> g \<le> 255 \<and> b \<le> 255
         \<and> rgbToHex [r, g, b] = CHR ''#'' # t))
   \<and> (\<not> six_hex_pattern s \<longrightarrow> hexToRgb s = None)"
proof (intro conjI impI)
  assume "length t = 6 \<and> list_all is_lower_hex_digit t"
  then obtain a b c d e f where t: "t = [a, b, c, d, e, f]"
    and low: "is_lower_hex_digit a" "is_lower_hex_digit b" "is_lower_hex_digit c"
      "is_lower_hex_digit d" "is_lower_hex_digit e" "is_lower_hex_digit f"
    by (auto elim: length6E)
  have "hexToRgb (CHR ''#'' # t) = Some [parseInt16 [a, b], parseInt16 [c, d], parseInt16 [e, f]]"
    using low by (simp add: t hexToRgb_hash lower_is_hex)
  moreover have "rgbToHex [parseInt16 [a, b], parseInt16 [c, d], parseInt16 [e, f]] = CHR ''#'' # t"
    using low by (simp add: rgbToHex_def byte_roundtrip t)
  ultimately show "\<exists>r g b. hexToRgb (CHR ''#'' # t) = Some [r, g, b]
         \<and> r \<le> 255 \<and> g \<le> 255 \<and> b \<le> 255 \<and> rgbToHex [r, g, b] = CHR ''#'' # t"
    by (simp add: parseInt16_pair_le)
next
  assume "\<not> six_hex_pattern s"
  then show "hexToRgb s = None" by (rule hexToRgb_None)
qed

theorem hexToRgb_rgbToHex_roundtrip_witness:
  "(length ''1a2b3c'' = 6 \<and> list_all is_lower_hex_digit ''1a2b3c'')
   \<and> hexToRgb ''#1a2b3c'' = Some [26, 43, 60]
   \<and> rgbToHex [26, 43, 60] = ''#1a2b3c''
   \<and> \<not> six_hex_pattern ''#12345g''
   \<and> hexToRgb ''#12345g'' = None"
  using hexToRgb_rgbToHex_roundtrip [of "''1a2b3c''" "''#12345g''"]
  by (simp add: is_lower_hex_digit_def six_hex_pattern_def six_hex_digits_def is_hex_digit_def
        hexToRgb_def parseInt16_def hex_val_def)

section \<open>Properties of the rounding\<close>

text \<open>
  Powers of two, the binary exponent, and the nearest integer; then what \<open>rnd\<close> returns
  in the normal range: the value it computes, its relative error of at most \<open>2^-53\<close>,
  and the exact cases.
\<close>

lemma pow2_powi: "pow2 e = 2 powi e"
  by (simp add: pow2_def power_int_def inverse_eq_divide power_one_over flip: power_inverse)

lemma pow2_pos: "0 < pow2 e"
  by (simp add: pow2_powi)

lemma pow2_add: "pow2 (a + b) = pow2 a * pow2 b"
  by (simp add: pow2_powi power_int_add)

lemma pow2_diff: "pow2 (a - b) = pow2 a / pow2 b"
  by (simp add: pow2_powi power_int_diff)

lemma pow2_mono: "a \<le> b \<Longrightarrow> pow2 a \<le> pow2 b"
  by (simp add: pow2_powi power_int_increasing)

lemma pow2_less_cancel: "pow2 a < pow2 b \<Longrightarrow> a < b"
  using pow2_mono [of b a] by (cases "a < b") auto

lemma pow2_of_nat: "pow2 (int n) = 2 ^ n"
  by (simp add: pow2_powi)

lemma pow2_Suc: "pow2 (e + 1) = 2 * pow2 e"
proof -
  have "pow2 1 = 2" by (simp add: pow2_def)
  then show ?thesis by (simp add: pow2_add)
qed

lemma ilog2_bounds:
  assumes "0 < q"
  shows "pow2 (ilog2 q) \<le> q \<and> q < pow2 (ilog2 q + 1)"
proof -
  obtain a b where ab: "quotient_of q = (a, b)" by (cases "quotient_of q")
  then have b: "0 < b" by (rule quotient_of_denom_pos)
  have q: "q = of_int a / of_int b" using ab by (rule quotient_of_div)
  with assms b have a: "0 < a" by (simp add: zero_less_divide_iff)
  define la lb where "la = floorlog 2 (nat a)" and "lb = floorlog 2 (nat b)"
  define d where "d = int la - int lb"
  have la: "2 ^ (la - 1) \<le> nat a" "nat a < 2 ^ la"
    using floorlog_bounds [of "nat a" 2] a by (simp_all add: la_def)
  have lb: "2 ^ (lb - 1) \<le> nat b" "nat b < 2 ^ lb"
    using floorlog_bounds [of "nat b" 2] b by (simp_all add: lb_def)
  have la1: "1 \<le> la" using la(2) a by (cases la) auto
  have lb1: "1 \<le> lb" using lb(2) b by (cases lb) auto
  have ra: "(2::rat) ^ (la - 1) \<le> of_int a" "of_int a < (2::rat) ^ la"
  proof -
    have "(of_nat (2 ^ (la - 1)) :: rat) \<le> of_nat (nat a)" using la(1) by (simp only: of_nat_le_iff)
    then show "(2::rat) ^ (la - 1) \<le> of_int a" using a by simp
    have "(of_nat (nat a) :: rat) < of_nat (2 ^ la)" using la(2) by (simp only: of_nat_less_iff)
    then show "of_int a < (2::rat) ^ la" using a by simp
  qed
  have rb: "(2::rat) ^ (lb - 1) \<le> of_int b" "of_int b < (2::rat) ^ lb"
  proof -
    have "(of_nat (2 ^ (lb - 1)) :: rat) \<le> of_nat (nat b)" using lb(1) by (simp only: of_nat_le_iff)
    then show "(2::rat) ^ (lb - 1) \<le> of_int b" using b by simp
    have "(of_nat (nat b) :: rat) < of_nat (2 ^ lb)" using lb(2) by (simp only: of_nat_less_iff)
    then show "of_int b < (2::rat) ^ lb" using b by simp
  qed
  have pa: "pow2 (int la - 1) \<le> of_int a" "of_int a < pow2 (int la)"
    using ra la1 pow2_of_nat [of "la - 1"] pow2_of_nat [of la] by simp_all
  have pb: "pow2 (int lb - 1) \<le> of_int b" "of_int b < pow2 (int lb)"
    using rb lb1 pow2_of_nat [of "lb - 1"] pow2_of_nat [of lb] by simp_all
  have rbpos: "(0::rat) < of_int b" using b by simp
  have upper: "q < pow2 (d + 1)"
  proof -
    have "of_int a < pow2 (int la)" by (rule pa(2))
    also have "pow2 (int la) = pow2 (d + 1) * pow2 (int lb - 1)"
      by (simp add: d_def flip: pow2_add)
    also have "\<dots> \<le> pow2 (d + 1) * of_int b"
      using pb(1) pow2_pos [of "d + 1"] by (simp add: mult_left_mono)
    finally show ?thesis using rbpos by (simp add: q pos_divide_less_eq)
  qed
  have lower: "pow2 (d - 1) \<le> q"
  proof -
    have "pow2 (d - 1) * of_int b \<le> pow2 (d - 1) * pow2 (int lb)"
      using pb(2) pow2_pos [of "d - 1"] by (simp add: mult_left_mono)
    also have "\<dots> = pow2 (int la - 1)"
      by (simp add: d_def flip: pow2_add)
    also have "\<dots> \<le> of_int a" by (rule pa(1))
    finally show ?thesis using rbpos by (simp add: q pos_le_divide_eq)
  qed
  have il: "ilog2 q = (if pow2 d \<le> q then d else d - 1)"
    by (simp add: ilog2_def ab d_def la_def lb_def)
  show ?thesis
  proof (cases "pow2 d \<le> q")
    case True
    with upper il show ?thesis by simp
  next
    case False
    with lower il show ?thesis by simp
  qed
qed

lemma ilog2_unique:
  assumes "0 < q" "pow2 e \<le> q" "q < pow2 (e + 1)"
  shows "ilog2 q = e"
proof -
  from ilog2_bounds [OF assms(1)]
  have b: "pow2 (ilog2 q) \<le> q" "q < pow2 (ilog2 q + 1)" by simp_all
  have "pow2 e < pow2 (ilog2 q + 1)" using assms(2) b(2) by simp
  then have "e < ilog2 q + 1" by (rule pow2_less_cancel)
  moreover have "pow2 (ilog2 q) < pow2 (e + 1)" using assms(3) b(1) by simp
  then have "ilog2 q < e + 1" by (rule pow2_less_cancel)
  ultimately show ?thesis by simp
qed

lemma round_even_of_int: "round_even (of_int k) = k"
  by (simp add: round_even_def)

lemma round_even_cases:
  "(round_even x = \<lfloor>x\<rfloor> \<and> x - of_int \<lfloor>x\<rfloor> \<le> 1 / 2)
   \<or> (round_even x = \<lfloor>x\<rfloor> + 1 \<and> 1 / 2 \<le> x - of_int \<lfloor>x\<rfloor>)"
proof (cases "x - of_int \<lfloor>x\<rfloor> < 1 / 2")
  case True
  then have "round_even x = \<lfloor>x\<rfloor>"
    unfolding round_even_def Let_def by (simp only: if_True)
  with True show ?thesis by simp
next
  case False
  note nlt = this
  show ?thesis
  proof (cases "1 / 2 < x - of_int \<lfloor>x\<rfloor>")
    case True
    with nlt have "round_even x = \<lfloor>x\<rfloor> + 1"
      unfolding round_even_def Let_def by (simp only: if_True if_False)
    with True show ?thesis by simp
  next
    case False
    with nlt have eq: "x - of_int \<lfloor>x\<rfloor> = 1 / 2" by simp
    from nlt False have "round_even x = (if even \<lfloor>x\<rfloor> then \<lfloor>x\<rfloor> else \<lfloor>x\<rfloor> + 1)"
      unfolding round_even_def Let_def by (simp only: if_False)
    with eq show ?thesis by (cases "even \<lfloor>x\<rfloor>") simp_all
  qed
qed

lemma round_even_bounds:
  "of_int (round_even x) \<le> x + 1 / 2" "x - 1 / 2 \<le> of_int (round_even x)"
proof -
  have f: "of_int \<lfloor>x\<rfloor> \<le> x" "x < of_int \<lfloor>x\<rfloor> + 1" by linarith+
  from round_even_cases [of x]
  consider "(of_int (round_even x) :: rat) = of_int \<lfloor>x\<rfloor>" "x - of_int \<lfloor>x\<rfloor> \<le> 1 / 2"
    | "(of_int (round_even x) :: rat) = of_int \<lfloor>x\<rfloor> + 1" "1 / 2 \<le> x - of_int \<lfloor>x\<rfloor>"
    by auto
  then have "of_int (round_even x) \<le> x + 1 / 2 \<and> x - 1 / 2 \<le> of_int (round_even x)"
    using f by cases linarith+
  then show "of_int (round_even x) \<le> x + 1 / 2" "x - 1 / 2 \<le> of_int (round_even x)"
    by simp_all
qed

lemma rnd_normal:
  assumes q: "0 < q" and lo: "pow2 e \<le> q" and hi: "q < pow2 (e + 1)"
    and e: "- 1022 \<le> e" "e \<le> 1022"
  defines "r \<equiv> of_int (round_even (q / pow2 (e - 52))) * pow2 (e - 52)"
  shows "rnd q = Fin r" and "q - q / 2 ^ 53 \<le> r" and "r \<le> q + q / 2 ^ 53"
proof -
  define p where "p = e - 52"
  define m where "m = round_even (q / pow2 p)"
  have r: "r = of_int m * pow2 p" by (simp add: r_def m_def p_def)
  have il: "ilog2 \<bar>q\<bar> = e" using q lo hi by (simp add: ilog2_unique)
  have pmax: "max (ilog2 \<bar>q\<bar> - 52) (- 1074) = p" using e by (simp add: il p_def)
  have pp: "0 < pow2 p" by (rule pow2_pos)
  have m1: "of_int m \<le> q / pow2 p + 1 / 2" and m2: "q / pow2 p - 1 / 2 \<le> of_int m"
    using round_even_bounds [of "q / pow2 p"] by (simp_all add: m_def)
  have up: "r \<le> q + pow2 p / 2"
  proof -
    have "of_int m * pow2 p \<le> (q / pow2 p + 1 / 2) * pow2 p"
      using m1 pp by (simp only: mult_right_mono less_imp_le)
    also have "\<dots> = q + pow2 p / 2" using pp by (simp add: field_simps)
    finally show ?thesis by (simp add: r)
  qed
  have dn: "q - pow2 p / 2 \<le> r"
  proof -
    have "(q / pow2 p - 1 / 2) * pow2 p \<le> of_int m * pow2 p"
      using m2 pp by (simp only: mult_right_mono less_imp_le)
    moreover have "(q / pow2 p - 1 / 2) * pow2 p = q - pow2 p / 2" using pp by (simp add: field_simps)
    ultimately show ?thesis by (simp add: r)
  qed
  have half: "pow2 p / 2 = pow2 e / 2 ^ 53"
  proof -
    have "pow2 e = pow2 p * pow2 52" by (simp add: p_def flip: pow2_add)
    also have "pow2 52 = 2 ^ 52" by (simp add: pow2_def)
    finally show ?thesis by simp
  qed
  have small: "pow2 p / 2 \<le> q / 2 ^ 53"
    using lo by (simp add: half divide_right_mono)
  show "r \<le> q + q / 2 ^ 53" using up small by linarith
  show low: "q - q / 2 ^ 53 \<le> r" using dn small by linarith
  have "q / 2 ^ 53 < q" using q by (simp add: field_simps)
  with low have rpos: "0 < r" by linarith
  have "r \<le> q + pow2 p / 2" by (rule up)
  also have "\<dots> < pow2 (e + 1) + pow2 e"
  proof -
    have "pow2 p / 2 < pow2 e" using pow2_pos [of e] by (simp add: half field_simps)
    with hi show ?thesis by linarith
  qed
  also have "\<dots> \<le> pow2 (e + 2)"
  proof -
    have "pow2 (e + 2) = 2 * pow2 (e + 1)" using pow2_Suc [of "e + 1"] by (simp add: add.assoc)
    then show ?thesis using pow2_pos [of e] by (simp add: pow2_Suc)
  qed
  also have "\<dots> \<le> pow2 1024" using e by (intro pow2_mono) simp
  finally have "\<not> pow2 1024 \<le> \<bar>r\<bar>" using rpos by simp
  moreover have "q \<noteq> 0" using q by simp
  ultimately show "rnd q = Fin r"
    unfolding rnd_def Let_def pmax using r by (simp add: m_def)
qed

lemma rnd_relative:
  assumes "pow2 (- 1022) \<le> q" "q < pow2 1023"
  shows "\<exists>r. rnd q = Fin r \<and> q - q / 2 ^ 53 \<le> r \<and> r \<le> q + q / 2 ^ 53"
proof -
  have q: "0 < q" using assms(1) pow2_pos [of "- 1022"] by linarith
  define e where "e = ilog2 q"
  have b: "pow2 e \<le> q" "q < pow2 (e + 1)" using ilog2_bounds [OF q] by (simp_all add: e_def)
  have "pow2 (- 1022) < pow2 (e + 1)" using assms(1) b(2) by simp
  then have e1: "- 1022 \<le> e" using pow2_less_cancel by fastforce
  have "pow2 e < pow2 1023" using assms(2) b(1) by simp
  then have e2: "e \<le> 1022" using pow2_less_cancel by fastforce
  from rnd_normal [OF q b e1 e2] show ?thesis by blast
qed

lemma rnd_exact:
  assumes q: "0 < q" and lo: "pow2 e \<le> q" and hi: "q < pow2 (e + 1)"
    and e: "- 1022 \<le> e" "e \<le> 1022"
    and k: "q / pow2 (e - 52) = of_int k"
  shows "rnd q = Fin q"
proof -
  have "rnd q = Fin (of_int (round_even (q / pow2 (e - 52))) * pow2 (e - 52))"
    using q lo hi e by (rule rnd_normal(1))
  also have "round_even (q / pow2 (e - 52)) = k"
    by (simp add: k round_even_of_int)
  also have "of_int k * pow2 (e - 52) = q"
    using pow2_pos [of "e - 52"] by (simp flip: k)
  finally show ?thesis .
qed

lemma rnd_of_nat:
  assumes "0 < n" "n < 2 ^ 53"
  shows "rnd (of_nat n) = Fin (of_nat n)"
proof -
  define q :: rat where "q = of_nat n"
  have q: "0 < q" using assms(1) by (simp add: q_def)
  define e where "e = ilog2 q"
  have b: "pow2 e \<le> q" "q < pow2 (e + 1)" using ilog2_bounds [OF q] by (simp_all add: e_def)
  have "(of_nat n :: rat) < of_nat (2 ^ 53)" using assms(2) by (simp only: of_nat_less_iff)
  then have "q < pow2 53" by (simp add: q_def pow2_def)
  with b(1) have "pow2 e < pow2 53" by simp
  then have e2: "e \<le> 52" using pow2_less_cancel by fastforce
  have "(1 :: rat) \<le> of_nat n" using assms(1) by simp
  then have "pow2 0 \<le> q" by (simp add: q_def pow2_def)
  with b(2) have "pow2 0 < pow2 (e + 1)" by simp
  then have e1: "0 \<le> e" using pow2_less_cancel by fastforce
  have "q / pow2 (e - 52) = q * pow2 (52 - e)"
    using pow2_diff [of 0 "e - 52"] pow2_pos [of "e - 52"] by (simp add: pow2_def field_simps)
  also have "pow2 (52 - e) = 2 ^ nat (52 - e)" using e2 by (simp add: pow2_def)
  also have "q * 2 ^ nat (52 - e) = of_int (int n * 2 ^ nat (52 - e))" by (simp add: q_def)
  finally have k: "q / pow2 (e - 52) = of_int (int n * 2 ^ nat (52 - e))" .
  have "- 1022 \<le> e" "e \<le> 1022" using e1 e2 by simp_all
  with q b have "rnd q = Fin q" using k by (rule rnd_exact)
  then show ?thesis by (simp add: q_def)
qed

lemma round_even_nearest:
  assumes "of_int m - 1 / 2 < x" "x < of_int m + 1 / 2"
  shows "round_even x = m"
proof -
  have "(of_int (round_even x) :: rat) < of_int m + 1" "(of_int m :: rat) < of_int (round_even x) + 1"
    using round_even_bounds [of x] assms by linarith+
  then have "(of_int (round_even x) :: rat) < of_int (m + 1)"
    "(of_int m :: rat) < of_int (round_even x + 1)"
    by simp_all
  then have "round_even x < m + 1" "m < round_even x + 1"
    by (simp_all only: of_int_less_iff)
  then show ?thesis by simp
qed

lemma rnd_eval:
  assumes "0 < q" "pow2 e \<le> q" "q < pow2 (e + 1)" "- 1022 \<le> e" "e \<le> 1022"
    and "round_even (q / pow2 (e - 52)) = m"
  shows "rnd q = Fin (of_int m * pow2 (e - 52))"
  using rnd_normal(1) [OF assms(1-5)] assms(6) by simp

lemma rnd_1_49: "rnd (1 / 49) = Fin (5882252574524729 / 288230376151711744)"
proof -
  have "rnd (1 / 49) = Fin (of_int 5882252574524729 * pow2 (- 6 - 52))"
    by (rule rnd_eval) (simp_all add: pow2_def round_even_nearest)
  then show ?thesis by (simp add: pow2_def)
qed

lemma rnd_49_x: "rnd (49 * (5882252574524729 / 288230376151711744)) = Fin (9007199254740991 / 9007199254740992)"
proof -
  have "rnd (49 * (5882252574524729 / 288230376151711744)) = Fin (of_int 9007199254740991 * pow2 (- 1 - 52))"
    by (rule rnd_eval) (simp_all add: pow2_def round_even_nearest)
  then show ?thesis by (simp add: pow2_def)
qed

section \<open>Properties of the canvas size\<close>

lemma rnd_one: "rnd 1 = Fin 1"
  using rnd_of_nat [of 1] by simp

lemma canvas_size_unscaled:
  assumes "\<not> truthy (js_or (arg_s a) (arg_scale a))" "0 < iw" "0 < ih" "iw < 2 ^ 53" "ih < 2 ^ 53"
  shows "canvas_size conv a (iw, ih) = (Fin (of_nat iw), Fin (of_nat ih))"
proof -
  have "div_dim (Fin (of_nat iw)) iw = Fin 1" "div_dim (Fin (of_nat ih)) ih = Fin 1"
    using assms by (simp_all add: div_dim_def rnd_one)
  moreover have "mul_dim iw (Fin 1) = Fin (of_nat iw)" "mul_dim ih (Fin 1) = Fin (of_nat ih)"
    using assms by (simp_all add: mul_dim_def rnd_of_nat)
  ultimately show ?thesis
    using assms(1) by (simp add: canvas_size_def Let_def js_or_def to_number_def)
qed

lemma js_or_truthy: "truthy a \<Longrightarrow> js_or a b = a"
  by (simp add: js_or_def)

lemma canvas_size_num:
  assumes "js_or (arg_s a) (arg_scale a) = Num (Fin s)" "s \<noteq> 0" "0 < iw" "0 < ih"
  shows "canvas_size conv a (iw, ih) =
           (mul_dim iw (math_min (rnd (s / of_nat iw)) (rnd (s / of_nat ih))),
            mul_dim ih (math_min (rnd (s / of_nat iw)) (rnd (s / of_nat ih))))"
  using assms by (simp add: canvas_size_def Let_def js_or_truthy to_number_def div_dim_def)

lemma abs_le_relative:
  fixes m s e :: rat
  assumes "m \<le> s * (1 + e)" "s * (1 - e) \<le> m"
  shows "\<bar>m - s\<bar> \<le> s * e"
  using assms by (simp add: abs_le_iff algebra_simps)

lemma rnd_factor:
  assumes "pow2 (- 1022) \<le> q" "q < pow2 1023"
  obtains r where "rnd q = Fin r" "q * (1 - 1 / 2 ^ 53) \<le> r" "r \<le> q * (1 + 1 / 2 ^ 53)"
proof -
  from rnd_relative [OF assms] obtain r
    where r: "rnd q = Fin r" "q - q / 2 ^ 53 \<le> r" "r \<le> q + q / 2 ^ 53" by blast
  have "q * (1 - 1 / 2 ^ 53) = q - q / 2 ^ 53" "q * (1 + 1 / 2 ^ 53) = q + q / 2 ^ 53"
    by (simp_all only: right_diff_distrib distrib_left mult_1_right times_divide_eq_right)
  with r(2,3) have "q * (1 - 1 / 2 ^ 53) \<le> r" "r \<le> q * (1 + 1 / 2 ^ 53)"
    by (simp_all only:)
  with r(1) show thesis by (rule that)
qed

lemma canvas_size_scaled:
  assumes sc: "js_or (arg_s a) (arg_scale a) = Num (Fin s)"
    and s: "1 / 2 ^ 900 \<le> s" "s \<le> 2 ^ 900"
    and dims: "0 < iw" "0 < ih" "iw < 2 ^ 53" "ih < 2 ^ 53"
  shows "\<exists>x y. canvas_size conv a (iw, ih) = (Fin x, Fin y)
           \<and> \<bar>max x y - s\<bar> \<le> s / 2 ^ 51
           \<and> x * of_nat ih * (1 - 1 / 2 ^ 53) \<le> y * of_nat iw * (1 + 1 / 2 ^ 53)
           \<and> y * of_nat iw * (1 - 1 / 2 ^ 53) \<le> x * of_nat ih * (1 + 1 / 2 ^ 53)"
proof -
  define u :: rat where "u = 1 / 2 ^ 53"
  define W H :: rat where "W = of_nat iw" and "H = of_nat ih"
  define M where "M = max W H"
  have u: "0 < u" "u < 1" by (simp_all add: u_def)
  have spos: "0 < s" using s(1) by (rule less_le_trans [rotated]) simp
  have W: "1 \<le> W" "W \<le> 2 ^ 53"
  proof -
    show "1 \<le> W" using dims(1) by (simp add: W_def)
    have "(of_nat iw :: rat) < of_nat (2 ^ 53)" using dims(3) by (simp only: of_nat_less_iff)
    then show "W \<le> 2 ^ 53" by (simp add: W_def)
  qed
  have H: "1 \<le> H" "H \<le> 2 ^ 53"
  proof -
    show "1 \<le> H" using dims(2) by (simp add: H_def)
    have "(of_nat ih :: rat) < of_nat (2 ^ 53)" using dims(4) by (simp only: of_nat_less_iff)
    then show "H \<le> 2 ^ 53" by (simp add: H_def)
  qed
  have M: "1 \<le> M" "M \<le> 2 ^ 53" "W \<le> M" "H \<le> M"
    using W H by (simp_all add: M_def)
  have Mpos: "0 < M" using M(1) by simp
  \<comment> \<open>a quotient of the scale by a dimension stays in the normal range\<close>
  have quot: "pow2 (- 1022) \<le> s / D \<and> s / D < pow2 1023 \<and> s / M \<le> s / D"
    if D: "1 \<le> D" "D \<le> M" for D
  proof -
    have Dpos: "0 < D" using D(1) by simp
    have "s / D \<le> s / 1" using D(1) spos by (intro divide_left_mono) simp_all
    then have "s / D \<le> 2 ^ 900" using s(2) by simp
    also have "(2::rat) ^ 900 < pow2 1023" by (simp add: pow2_def)
    finally have hi: "s / D < pow2 1023" .
    have le: "s / M \<le> s / D" using D Dpos spos by (intro divide_left_mono) simp_all
    have "pow2 (- 1022) \<le> (1 / 2 ^ 900) / 2 ^ 53" by (simp add: pow2_def)
    also have "\<dots> \<le> s / 2 ^ 53" using s(1) by (intro divide_right_mono) simp_all
    also have "\<dots> \<le> s / M" using M(2) Mpos spos by (intro divide_left_mono) simp_all
    also note le
    finally show ?thesis using hi le by simp
  qed
  from quot [OF W(1) M(3)] obtain qa
    where qa: "rnd (s / W) = Fin qa" "s / W * (1 - u) \<le> qa" "qa \<le> s / W * (1 + u)"
    unfolding u_def by (blast elim: rnd_factor)
  from quot [OF H(1) M(4)] obtain qb
    where qb: "rnd (s / H) = Fin qb" "s / H * (1 - u) \<le> qb" "qb \<le> s / H * (1 + u)"
    unfolding u_def by (blast elim: rnd_factor)
  define c where "c = min qa qb"
  have c_lo: "s / M * (1 - u) \<le> c"
  proof -
    have "s / M \<le> s / W" "s / M \<le> s / H" "0 \<le> 1 - u"
      using quot [OF W(1) M(3)] quot [OF H(1) M(4)] u by simp_all
    then have "s / M * (1 - u) \<le> s / W * (1 - u)" "s / M * (1 - u) \<le> s / H * (1 - u)"
      by (simp_all only: mult_right_mono)
    with qa(2) qb(2) have "s / M * (1 - u) \<le> qa" "s / M * (1 - u) \<le> qb" by linarith+
    then show ?thesis by (simp only: c_def min.bounded_iff)
  qed
  have c_hi: "c \<le> s / M * (1 + u)"
  proof (cases "H \<le> W")
    case True
    then have "M = W" by (simp add: M_def)
    with qa(3) show ?thesis by (simp add: c_def min.coboundedI1)
  next
    case False
    then have "M = H" by (simp add: M_def)
    with qb(3) show ?thesis by (simp add: c_def min.coboundedI2)
  qed
  have cpos: "0 < c"
  proof -
    have "0 < s / M * (1 - u)" using spos Mpos u by simp
    with c_lo show ?thesis by simp
  qed
  \<comment> \<open>a product of a dimension with the ratio stays in the normal range\<close>
  have prod: "pow2 (- 1022) \<le> D * c \<and> D * c < pow2 1023 \<and> D * c \<le> s * (1 + u)"
    if D: "1 \<le> D" "D \<le> M" for D
  proof -
    have "D * c \<le> M * (s / M * (1 + u))"
      using D c_hi cpos Mpos by (intro mult_mono) simp_all
    also have "\<dots> = s * (1 + u)" using Mpos by simp
    finally have up: "D * c \<le> s * (1 + u)" .
    also have "\<dots> \<le> 2 ^ 900 * 2" using s(2) u spos by (intro mult_mono) simp_all
    also have "\<dots> < pow2 1023" by (simp add: pow2_def)
    finally have hi: "D * c < pow2 1023" .
    have "pow2 (- 1022) \<le> (1 / 2 ^ 900) / 2 ^ 53 * (1 / 2)" by (simp add: pow2_def)
    also have "\<dots> \<le> s / M * (1 - u)"
    proof (intro mult_mono)
      have "(1 / 2 ^ 900) / 2 ^ 53 \<le> s / 2 ^ 53" using s(1) by (intro divide_right_mono) simp_all
      also have "\<dots> \<le> s / M" using M(2) Mpos spos by (intro divide_left_mono) simp_all
      finally show "(1 / 2 ^ 900) / 2 ^ 53 \<le> s / M" .
      show "1 / 2 \<le> 1 - u" by (simp add: u_def)
    qed (use spos Mpos in simp_all)
    also have "\<dots> \<le> c" by (rule c_lo)
    also have "c \<le> D * c" using D(1) cpos by simp
    finally show ?thesis using hi up by simp
  qed
  from prod [OF W(1) M(3)] obtain x
    where x: "rnd (W * c) = Fin x" "W * c * (1 - u) \<le> x" "x \<le> W * c * (1 + u)"
    unfolding u_def by (blast elim: rnd_factor)
  from prod [OF H(1) M(4)] obtain y
    where y: "rnd (H * c) = Fin y" "H * c * (1 - u) \<le> y" "y \<le> H * c * (1 + u)"
    unfolding u_def by (blast elim: rnd_factor)
  have "s \<noteq> 0" using spos by simp
  from canvas_size_num [OF sc this dims(1,2)]
  have size: "canvas_size conv a (iw, ih) = (Fin x, Fin y)"
    using qa(1) qb(1) x(1) y(1) by (simp add: mul_dim_def c_def flip: W_def H_def)
  \<comment> \<open>the larger side\<close>
  have mx_hi: "max x y \<le> s * ((1 + u) * (1 + u))"
  proof -
    have "x \<le> s * (1 + u) * (1 + u)" "y \<le> s * (1 + u) * (1 + u)"
    proof -
      have "W * c * (1 + u) \<le> s * (1 + u) * (1 + u)" "H * c * (1 + u) \<le> s * (1 + u) * (1 + u)"
        using prod [OF W(1) M(3)] prod [OF H(1) M(4)] u by (simp_all add: mult_right_mono)
      with x(3) y(3) show "x \<le> s * (1 + u) * (1 + u)" "y \<le> s * (1 + u) * (1 + u)" by simp_all
    qed
    then show ?thesis by (simp add: mult.assoc)
  qed
  have mx_lo: "s * ((1 - u) * (1 - u)) \<le> max x y"
  proof -
    have "s * ((1 - u) * (1 - u)) = M * (s / M * (1 - u)) * (1 - u)" using Mpos by simp
    also have "\<dots> \<le> M * c * (1 - u)"
      using c_lo Mpos u by (intro mult_right_mono mult_left_mono) simp_all
    also have "\<dots> \<le> max x y"
    proof (cases "H \<le> W")
      case True
      then have "M = W" by (simp add: M_def)
      with x(2) show ?thesis by (simp add: max.coboundedI1)
    next
      case False
      then have "M = H" by (simp add: M_def)
      with y(2) show ?thesis by (simp add: max.coboundedI2)
    qed
    finally show ?thesis .
  qed
  have "(1 + u) * (1 + u) \<le> 1 + 1 / 2 ^ 51" "1 - 1 / 2 ^ 51 \<le> (1 - u) * (1 - u)"
    by (simp_all add: u_def)
  then have "s * ((1 + u) * (1 + u)) \<le> s * (1 + 1 / 2 ^ 51)" "s * (1 - 1 / 2 ^ 51) \<le> s * ((1 - u) * (1 - u))"
    using spos by (simp_all only: mult_left_mono less_imp_le)
  with mx_hi mx_lo have "max x y \<le> s * (1 + 1 / 2 ^ 51)" "s * (1 - 1 / 2 ^ 51) \<le> max x y"
    by linarith+
  then have "\<bar>max x y - s\<bar> \<le> s * (1 / 2 ^ 51)"
    by (rule abs_le_relative)
  then have larger: "\<bar>max x y - s\<bar> \<le> s / 2 ^ 51"
    by (simp only: times_divide_eq_right mult_1_right)
  \<comment> \<open>the proportions\<close>
  have Wpos: "0 < W" and Hpos: "0 < H" using W(1) H(1) by simp_all
  have r1: "x * H * (1 - u) \<le> y * W * (1 + u)"
  proof -
    have "x * H * (1 - u) \<le> W * c * (1 + u) * H * (1 - u)"
      using x(3) Hpos u by (intro mult_right_mono) simp_all
    also have "\<dots> = H * c * (1 - u) * W * (1 + u)" by (simp add: mult_ac)
    also have "\<dots> \<le> y * W * (1 + u)"
      using y(2) Wpos u by (intro mult_right_mono) simp_all
    finally show ?thesis .
  qed
  have r2: "y * W * (1 - u) \<le> x * H * (1 + u)"
  proof -
    have "y * W * (1 - u) \<le> H * c * (1 + u) * W * (1 - u)"
      using y(3) Wpos u by (intro mult_right_mono) simp_all
    also have "\<dots> = W * c * (1 - u) * H * (1 + u)" by (simp add: mult_ac)
    also have "\<dots> \<le> x * H * (1 + u)"
      using x(2) Hpos u by (intro mult_right_mono) simp_all
    finally show ?thesis .
  qed
  from size larger r1 r2 show ?thesis
    unfolding u_def W_def H_def by blast
qed

lemma rnd_500_1920: "rnd (500 / 1920) = Fin (4691249611844267 / 18014398509481984)"
proof -
  have "rnd (500 / 1920) = Fin (of_int 4691249611844267 * pow2 (- 2 - 52))"
    by (rule rnd_eval) (simp_all add: pow2_def round_even_nearest)
  then show ?thesis by (simp add: pow2_def)
qed

lemma rnd_500_1080: "rnd (500 / 1080) = Fin (8339999309945363 / 18014398509481984)"
proof -
  have "rnd (500 / 1080) = Fin (of_int 8339999309945363 * pow2 (- 2 - 52))"
    by (rule rnd_eval) (simp_all add: pow2_def round_even_nearest)
  then show ?thesis by (simp add: pow2_def)
qed

lemma rnd_width_1920:
  "rnd (1920 * (4691249611844267 / 18014398509481984)) = Fin (8796093022208001 / 17592186044416)"
proof -
  have "rnd (1920 * (4691249611844267 / 18014398509481984)) =
      Fin (of_int 8796093022208001 * pow2 (8 - 52))"
    by (rule rnd_eval) (simp_all add: pow2_def round_even_nearest)
  then show ?thesis by (simp add: pow2_def)
qed

lemma rnd_height_1080:
  "rnd (1080 * (4691249611844267 / 18014398509481984)) = Fin (1125 / 4)"
proof -
  have "rnd (1080 * (4691249611844267 / 18014398509481984)) =
      Fin (of_int 4947802324992000 * pow2 (8 - 52))"
    by (rule rnd_eval) (simp_all add: pow2_def round_even_nearest)
  then show ?thesis by (simp add: pow2_def)
qed

lemma canvas_size_1920_1080:
  "canvas_size conv scaled_args (1920, 1080) =
     (Fin (8796093022208001 / 17592186044416), Fin (1125 / 4))"
proof -
  have "js_or (arg_s scaled_args) (arg_scale scaled_args) = Num (Fin 500)"
    by (simp add: scaled_args_def no_args_def js_or_def)
  then have "canvas_size conv scaled_args (1920, 1080) =
      (mul_dim 1920 (math_min (rnd (500 / of_nat 1920)) (rnd (500 / of_nat 1080))),
       mul_dim 1080 (math_min (rnd (500 / of_nat 1920)) (rnd (500 / of_nat 1080))))"
    by (rule canvas_size_num) simp_all
  also have "math_min (rnd (500 / of_nat 1920)) (rnd (500 / of_nat 1080)) =
      Fin (4691249611844267 / 18014398509481984)"
    by (simp only: of_nat_numeral rnd_500_1920 rnd_500_1080 math_min.simps) simp
  also have "mul_dim 1920 (Fin (4691249611844267 / 18014398509481984)) =
      Fin (8796093022208001 / 17592186044416)"
    by (simp only: mul_dim_def jsnum.case of_nat_numeral rnd_width_1920)
  also have "mul_dim 1080 (Fin (4691249611844267 / 18014398509481984)) = Fin (1125 / 4)"
    by (simp only: mul_dim_def jsnum.case of_nat_numeral rnd_height_1080)
  finally show ?thesis .
qed

text \<open>
  Claim C10, as amended. For every image of positive width \<open>w\<close> and height \<open>h\<close>, both
  below \<open>2^53\<close>: when no scale is given (\<open>args.s || args.scale\<close> is falsy) the width
  and height passed to \<open>createCanvas\<close> are exactly \<open>w\<close> and \<open>h\<close>; when the scale is a
  number \<open>s\<close> with \<open>2^-900 \<le> s \<le> 2^900\<close>, the width and height passed to
  \<open>createCanvas\<close> are the doubles \<open>w * r\<close> and \<open>h * r\<close> with
  \<open>r = Math.min(s / w, s / h)\<close>, every operation rounded to a double: the larger one is
  \<open>s\<close> up to a relative error of \<open>2^-51\<close>, and the proportions of the source are kept up
  to the factor \<open>(1 + 2^-53) / (1 - 2^-53)\<close>. Nothing is stated for a scale outside that
  range, where the quotients may underflow or overflow.
\<close>

theorem canvas_size_rounded:
  assumes "0 < iw" "0 < ih" "iw < 2 ^ 53" "ih < 2 ^ 53"
  shows "(\<not> truthy (js_or (arg_s a) (arg_scale a)) \<longrightarrow>
            canvas_size conv a (iw, ih) = (Fin (of_nat iw), Fin (of_nat ih)))
       \<and> (js_or (arg_s a) (arg_scale a) = Num (Fin s) \<and> 1 / 2 ^ 900 \<le> s \<and> s \<le> 2 ^ 900 \<longrightarrow>
            canvas_size conv a (iw, ih) =
              (mul_dim iw (math_min (div_dim (Fin s) iw) (div_dim (Fin s) ih)),
               mul_dim ih (math_min (div_dim (Fin s) iw) (div_dim (Fin s) ih)))
          \<and> (\<exists>x y. canvas_size conv a (iw, ih) = (Fin x, Fin y)
               \<and> \<bar>max x y - s\<bar> \<le> s / 2 ^ 51
               \<and> x * of_nat ih * (1 - 1 / 2 ^ 53) \<le> y * of_nat iw * (1 + 1 / 2 ^ 53)
               \<and> y * of_nat iw * (1 - 1 / 2 ^ 53) \<le> x * of_nat ih * (1 + 1 / 2 ^ 53)))"
proof (intro conjI impI)
  assume "\<not> truthy (js_or (arg_s a) (arg_scale a))"
  then show "canvas_size conv a (iw, ih) = (Fin (of_nat iw), Fin (of_nat ih))"
    using assms by (rule canvas_size_unscaled)
next
  assume sc: "js_or (arg_s a) (arg_scale a) = Num (Fin s) \<and> 1 / 2 ^ 900 \<le> s \<and> s \<le> 2 ^ 900"
  then have "0 < s" by (intro less_le_trans [of 0 "1 / 2 ^ 900" s]) simp_all
  with sc assms(1,2)
  show "canvas_size conv a (iw, ih) =
      (mul_dim iw (math_min (div_dim (Fin s) iw) (div_dim (Fin s) ih)),
       mul_dim ih (math_min (div_dim (Fin s) iw) (div_dim (Fin s) ih)))"
    by (simp add: canvas_size_num div_dim_def)
  from sc assms
  show "\<exists>x y. canvas_size conv a (iw, ih) = (Fin x, Fin y)
      \<and> \<bar>max x y - s\<bar> \<le> s / 2 ^ 51
      \<and> x * of_nat ih * (1 - 1 / 2 ^ 53) \<le> y * of_nat iw * (1 + 1 / 2 ^ 53)
      \<and> y * of_nat iw * (1 - 1 / 2 ^ 53) \<le> x * of_nat ih * (1 + 1 / 2 ^ 53)"
    by (intro canvas_size_scaled) simp_all
qed

text \<open>
  The theorem at two inputs: a 640 by 480 image without a scale, and a 1920 by 1080 image
  with \<open>-s 500\<close>.
\<close>

theorem canvas_size_rounded_witness:
  "canvas_size (\<lambda>v. NaN) plain_args (640, 480) = (Fin 640, Fin 480)
   \<and> (\<exists>x y. canvas_size (\<lambda>v. NaN) scaled_args (1920, 1080) = (Fin x, Fin y)
         \<and> \<bar>max x y - 500\<bar> \<le> 500 / 2 ^ 51
         \<and> x * 1080 * (1 - 1 / 2 ^ 53) \<le> y * 1920 * (1 + 1 / 2 ^ 53)
         \<and> y * 1920 * (1 - 1 / 2 ^ 53) \<le> x * 1080 * (1 + 1 / 2 ^ 53))"
proof -
  have a: "\<not> truthy (js_or (arg_s plain_args) (arg_scale plain_args))"
    by (simp add: plain_args_def no_args_def js_or_def)
  have b: "js_or (arg_s scaled_args) (arg_scale scaled_args) = Num (Fin 500)"
    by (simp add: scaled_args_def no_args_def js_or_def)
  have c: "(1 / 2 ^ 900 :: rat) \<le> 500" "(500 :: rat) \<le> 2 ^ 900" by simp_all
  have d: "(0::nat) < 640" "(0::nat) < 480" "(640::nat) < 2 ^ 53" "(480::nat) < 2 ^ 53" by simp_all
  have e: "(0::nat) < 1920" "(0::nat) < 1080" "(1920::nat) < 2 ^ 53" "(1080::nat) < 2 ^ 53" by simp_all
  from canvas_size_rounded [OF d, where a = plain_args and conv = "\<lambda>v. NaN"] a
  have "canvas_size (\<lambda>v. NaN) plain_args (640, 480) = (Fin 640, Fin 480)" by simp
  moreover from canvas_size_rounded [OF e, where a = scaled_args and s = 500 and conv = "\<lambda>v. NaN"] b c
  have "\<exists>x y. canvas_size (\<lambda>v. NaN) scaled_args (1920, 1080) = (Fin x, Fin y)
         \<and> \<bar>max x y - 500\<bar> \<le> 500 / 2 ^ 51
         \<and> x * of_nat 1080 * (1 - 1 / 2 ^ 53) \<le> y * of_nat 1920 * (1 + 1 / 2 ^ 53)
         \<and> y * of_nat 1920 * (1 - 1 / 2 ^ 53) \<le> x * of_nat 1080 * (1 + 1 / 2 ^ 53)"
    by blast
  then have "\<exists>x y. canvas_size (\<lambda>v. NaN) scaled_args (1920, 1080) = (Fin x, Fin y)
         \<and> \<bar>max x y - 500\<bar> \<le> 500 / 2 ^ 51
         \<and> x * 1080 * (1 - 1 / 2 ^ 53) \<le> y * 1920 * (1 + 1 / 2 ^ 53)
         \<and> y * 1920 * (1 - 1 / 2 ^ 53) \<le> x * 1080 * (1 + 1 / 2 ^ 53)"
    by (simp only: of_nat_numeral)
  ultimately show ?thesis by simp
qed

text \<open>
  Claim C10 as stated fails: for a 1920 by 1080 image and \<open>-s 500\<close> the width given to
  \<open>createCanvas\<close> is \<open>500 + 2^-44\<close> (printed \<open>500.00000000000006\<close>), not 500.
\<close>

theorem scaled_width_is_not_the_scale:
  "canvas_size (\<lambda>v. NaN) scaled_args (1920, 1080) =
     (Fin (8796093022208001 / 17592186044416), Fin (1125 / 4))
   \<and> (8796093022208001 / 17592186044416 :: rat) = 500 + 1 / 2 ^ 44"
  by (simp add: canvas_size_1920_1080)

section \<open>Properties of the runs\<close>

lemma list_names_plain:
  "list_names tbl False False ns = map (\<lambda>n. Print (Preset_name n)) ns"
  by (induction ns) (simp_all add: status_def)

lemma list_names_console: "\<not> list_ex beyond_console (list_names tbl quiet verbose ns)"
  by (induction ns) (auto simp: status_def split: table_read.splits)

lemma list_names_quiet: "\<not> list_ex is_print (list_names tbl True verbose ns)"
  by (induction ns) (auto simp: status_def split: table_read.splits)

lemma palette_stage_unknown:
  "truthy name \<Longrightarrow> entry tbl name = Missing \<Longrightarrow> palette_stage tbl pal name = Abort_unknown_preset"
  by (simp add: palette_stage_def preset_unknown_def)

lemma palette_stage_explicit:
  assumes "s \<noteq> []" "\<not> (truthy name \<and> entry tbl name = Missing)"
  shows "palette_stage tbl (Str s) name = Selected (Colors (split_comma s))"
  using assms by (auto simp: palette_stage_def preset_unknown_def select_palette_def explicit_colors_def)

lemma palette_stage_not_string:
  assumes "truthy pal" "\<not> is_str pal" "\<not> (truthy name \<and> entry tbl name = Missing)"
  shows "palette_stage tbl pal name = Raised TypeError"
  using assms
  by (cases pal) (auto simp: palette_stage_def preset_unknown_def select_palette_def explicit_colors_def)

lemma palette_stage_default:
  "palette_stage tbl Undefined Undefined = Selected (Colors [])"
  by (simp add: palette_stage_def preset_unknown_def select_palette_def explicit_colors_def
        preset_colors_def)

lemma calls_all: "list_all ok xs \<Longrightarrow> calls ok xs rest = xs @ rest"
  by (induction xs) simp_all

lemma given_palettes_append: "given_palettes (xs @ ys) = given_palettes xs @ given_palettes ys"
  by (induction xs rule: given_palettes.induct) simp_all

lemma given_palettes_console: "\<not> list_ex beyond_console xs \<Longrightarrow> given_palettes xs = []"
  by (induction xs rule: given_palettes.induct) simp_all

lemma given_palettes_map_print: "given_palettes (map (\<lambda>n. Print (g n)) ns) = []"
  by (induction ns) simp_all

lemma given_palettes_status: "given_palettes (status quiet l) = []"
  by (simp add: status_def)

lemma given_palettes_calls:
  "given_palettes xs = [] \<Longrightarrow> given_palettes rest = [] \<Longrightarrow> given_palettes (calls ok xs rest) = []"
  by (induction xs rule: given_palettes.induct) simp_all

lemma given_palettes_quantizing:
  assumes "given_palettes [x] = []" "given_palettes rest = []"
  shows "given_palettes (calls ok (quantizing a cs cw ch @ [x]) rest) = [map hexToRgb cs]"
proof -
  have "given_palettes (calls ok ([Quant_sample, Quant_palette, Quant_reduce, Put_image_data cw ch] @ [x]) rest) = []"
    using assms by (intro given_palettes_calls) simp_all
  then show ?thesis by (simp add: quantizing_def)
qed

lemma on_image_index_colors:
  assumes "canvas_size (toNumber w) a img = (cw, ch)"
    "returns w (Create_canvas cw ch)" "returns w (Draw_image cw ch)"
  shows "on_image_index w a (Colors cs) f img =
     Create_canvas cw ch # Draw_image cw ch #
     calls (returns w)
       (quantizing a cs cw ch @
        [Write_png (if truthy (arg_o a) then Given (arg_o a) else Suffixed f ''-dither.png'')])
       [Stat_output (if truthy (arg_o a) then Given (arg_o a) else Suffixed f ''-dither.png''),
        Print (case statOutput w of
                 Some n \<Rightarrow> Output_size n
               | None \<Rightarrow> Could_not_read_output
                   (if truthy (arg_o a) then Given (arg_o a) else Suffixed f ''-dither.png'')),
        Print (Palette_line (join '','' (paletteToHex (quantPalette w)))),
        Print (Dithered_line (if truthy (arg_o a) then Given (arg_o a) else Suffixed f ''-dither.png''))]"
  using assms by (simp add: on_image_index_def Let_def)

lemma on_image_gif_colors:
  assumes "canvas_size (toNumber w) a img = (cw, ch)"
    "returns w (Create_canvas cw ch)" "returns w (Draw_image cw ch)"
  shows "on_image_gif w a quiet (Colors cs) f n img =
     Create_canvas cw ch # Draw_image cw ch #
     calls (returns w)
       (quantizing a cs cw ch @
        [Encode_gif (if truthy (arg_o a) then Given (arg_o a) else Suffixed f ''-dither.gif'') cw ch])
       ([Stat_output (if truthy (arg_o a) then Given (arg_o a) else Suffixed f ''-dither.gif'')] @
        (case statOutput w of
           Some m \<Rightarrow> status quiet (Output_size m) @ status quiet (Percentage_reduction n m)
         | None \<Rightarrow> status quiet (Could_not_read_output
             (if truthy (arg_o a) then Given (arg_o a) else Suffixed f ''-dither.gif''))) @
        status quiet (Final_palette_line (join '','' (paletteToHex (quantPalette w)))) @
        status quiet (Dithered_line (if truthy (arg_o a) then Given (arg_o a) else Suffixed f ''-dither.gif'')))"
  using assms by (simp add: on_image_gif_def Let_def)

lemma given_palettes_on_image_index:
  assumes "canvas_size (toNumber w) a img = (cw, ch)"
    "returns w (Create_canvas cw ch)" "returns w (Draw_image cw ch)"
  shows "given_palettes (on_image_index w a (Colors cs) f img) = [map hexToRgb cs]"
  by (simp add: on_image_index_colors [OF assms] given_palettes_quantizing)

lemma given_palettes_on_image_gif:
  assumes "canvas_size (toNumber w) a img = (cw, ch)"
    "returns w (Create_canvas cw ch)" "returns w (Draw_image cw ch)"
  shows "given_palettes (on_image_gif w a quiet (Colors cs) f n img) = [map hexToRgb cs]"
  by (simp add: on_image_gif_colors [OF assms] given_palettes_quantizing given_palettes_append
        given_palettes_status split: option.splits)

lemma no_throw_calls:
  "Throw e \<notin> set xs \<Longrightarrow> Throw e \<notin> set rest \<Longrightarrow> Throw e \<notin> set (calls ok xs rest)"
  by (induction xs) auto

lemma no_throw_on_image_index:
  assumes "canvas_size (toNumber w) a img = (cw, ch)"
    "returns w (Create_canvas cw ch)" "returns w (Draw_image cw ch)"
  shows "Throw e \<notin> set (on_image_index w a (Colors cs) f img)"
  by (simp add: on_image_index_colors [OF assms] no_throw_calls quantizing_def)

lemma dither_index_selected:
  assumes "palette_stage (palettes w) (arg_palette a) (arg_preset a) = Selected pal"
    "arg_i a = Str f" "f \<noteq> []" "loadImage w (Str f) = Some img"
  shows "dither_index w a =
           [Print (Dithering (Str f)), Stat_input (Str f),
            Print (case statSync w (Str f) of Some n \<Rightarrow> Input_size n | None \<Rightarrow> Could_not_read (Str f)),
            Load_image (Str f)] @ on_image_index w a pal (Str f) img"
  using assms by (simp add: dither_index_def preset_name_index_def js_or_def Let_def)

lemma dither_gif_selected:
  assumes "palette_stage (palettes w) (arg_palette a) (preset_name_gif a) = Selected pal"
    "arg_i a = Str f" "f \<noteq> []" "statSync w (Str f) = Some n" "loadImage w (Str f) = Some img"
  shows "dither_gif w a =
           status (truthy (arg_silent a)) (Dithering (Str f)) @ [Stat_input (Str f)] @
           status (truthy (arg_silent a)) (Input_size n) @ [Load_image (Str f)] @
           on_image_gif w a (truthy (arg_silent a)) pal (Str f) n img"
  using assms by (simp add: dither_gif_def js_or_def Let_def)

lemma dither_index_raised:
  "palette_stage (palettes w) (arg_palette a) (arg_preset a) = Raised e \<Longrightarrow> dither_index w a = [Throw e]"
  by (simp add: dither_index_def preset_name_index_def)

lemma dither_gif_raised:
  "palette_stage (palettes w) (arg_palette a) (preset_name_gif a) = Raised e \<Longrightarrow> dither_gif w a = [Throw e]"
  by (simp add: dither_gif_def Let_def)


lemma all_return:
  assumes "canvas_size (toNumber w) a img = (cw, ch)"
    "returns w (Create_canvas cw ch)" "returns w (Draw_image cw ch)"
    and "list_all (returns w) (quantizing a cs cw ch @ [Write_png
           (if truthy (arg_o a) then Given (arg_o a) else Suffixed f ''-dither.png'')])"
  shows "Quant_reduce \<in> set (on_image_index w a (Colors cs) f img)"
    "Write_png (if truthy (arg_o a) then Given (arg_o a) else Suffixed f ''-dither.png'')
       \<in> set (on_image_index w a (Colors cs) f img)"
  using calls_all [OF assms(4)]
  by (simp_all add: on_image_index_colors [OF assms(1-3)] quantizing_def)

lemma sample_canvas:
  "\<not> truthy (js_or (arg_s a) (arg_scale a)) \<Longrightarrow>
     canvas_size (toNumber sample_world) a (2, 2) = (Fin 2, Fin 2)"
  using canvas_size_unscaled [of a 2 2 "toNumber sample_world"] by simp

lemma sample_returns:
  "returns sample_world (New_RgbQuant q) = (None \<notin> set (palette q))"
  "returns sample_world (Create_canvas cw ch)" "returns sample_world (Draw_image cw ch)"
  "returns sample_world Quant_sample" "returns sample_world Quant_palette"
  "returns sample_world Quant_reduce" "returns sample_world (Put_image_data cw ch)"
  "returns sample_world (Write_png p)" "returns sample_world (Encode_gif p cw ch)"
  by (simp_all add: sample_world_def)

lemma sample_palette_line:
  "join '','' (paletteToHex (quantPalette sample_world)) = ''#000000,#ffffff''"
  by (simp add: sample_world_def paletteToHex_def rgbToHex_def pad2_def hex_digit_def
        toString16.simps [of 0] toString16.simps [of 255] toString16.simps [of 15])

lemma sample_run:
  assumes st: "palette_stage sample_table (arg_palette a) (arg_preset a) = Selected (Colors cs)"
    and i: "arg_i a = Str ''in.png''"
    and rest: "arg_s a = Undefined" "arg_scale a = Undefined" "arg_o a = Undefined"
      "arg_serpentine a = Undefined"
  shows "dither_index sample_world a =
     [Print (Dithering (Str ''in.png'')), Stat_input (Str ''in.png''), Print (Input_size 1000),
      Load_image (Str ''in.png''),
      Create_canvas (Fin 2) (Fin 2), Draw_image (Fin 2) (Fin 2),
      New_RgbQuant \<lparr>dithSerp = Bool False, palette = map hexToRgb cs\<rparr>] @
     (if None \<in> set (map hexToRgb cs) then [Threw_in_library]
      else [Quant_sample, Quant_palette, Quant_reduce,
            Put_image_data (Fin 2) (Fin 2),
            Write_png (Suffixed (Str ''in.png'') ''-dither.png''),
            Stat_output (Suffixed (Str ''in.png'') ''-dither.png''),
            Print (Output_size 500),
            Print (Palette_line ''#000000,#ffffff''),
            Print (Dithered_line (Suffixed (Str ''in.png'') ''-dither.png''))])"
proof -
  have sc: "\<not> truthy (js_or (arg_s a) (arg_scale a))"
    using rest by (simp add: js_or_def)
  have "palette_stage (palettes sample_world) (arg_palette a) (arg_preset a) = Selected (Colors cs)"
    using st by (simp add: sample_world_def)
  then have "dither_index sample_world a =
      [Print (Dithering (Str ''in.png'')), Stat_input (Str ''in.png''),
       Print (case statSync sample_world (Str ''in.png'') of
                Some n \<Rightarrow> Input_size n | None \<Rightarrow> Could_not_read (Str ''in.png'')),
       Load_image (Str ''in.png'')] @
      on_image_index sample_world a (Colors cs) (Str ''in.png'') (2, 2)"
    using i by (rule dither_index_selected) (simp_all add: sample_world_def)
  moreover have "on_image_index sample_world a (Colors cs) (Str ''in.png'') (2, 2) =
      Create_canvas (Fin 2) (Fin 2) # Draw_image (Fin 2) (Fin 2) #
      New_RgbQuant \<lparr>dithSerp = Bool False, palette = map hexToRgb cs\<rparr> #
      (if None \<in> set (map hexToRgb cs) then [Threw_in_library]
       else [Quant_sample, Quant_palette, Quant_reduce,
             Put_image_data (Fin 2) (Fin 2),
             Write_png (Suffixed (Str ''in.png'') ''-dither.png''),
             Stat_output (Suffixed (Str ''in.png'') ''-dither.png''),
             Print (Output_size 500),
             Print (Palette_line ''#000000,#ffffff''),
             Print (Dithered_line (Suffixed (Str ''in.png'') ''-dither.png''))])"
    by (simp add: on_image_index_colors [OF sample_canvas [OF sc] sample_returns(2,3)]
          quantizing_def sample_returns sample_palette_line rest js_or_def)
       (simp add: sample_world_def)
  ultimately show ?thesis by (simp add: sample_world_def)
qed

lemma hexToRgb_red: "hexToRgb ''#ff0000'' = Some [255, 0, 0]" "hexToRgb ''red'' = None"
  by (simp_all add: hexToRgb_def is_hex_digit_def parseInt16_def hex_val_def)

lemma unknown_index:
  assumes "truthy (arg_preset a)" "entry (palettes w) (arg_preset a) = Missing"
  shows "dither_index w a =
      Print (Unknown_preset (arg_preset a)) # Print Available_presets #
      map (\<lambda>n. Print (Preset_name n)) (names (palettes w))"
  using palette_stage_unknown [OF assms, of "arg_palette a"]
  by (simp add: dither_index_def preset_name_index_def list_names_plain)

lemma unknown_gif:
  assumes "truthy (preset_name_gif a)" "entry (palettes w) (preset_name_gif a) = Missing"
  shows "dither_gif w a =
      status (truthy (arg_silent a)) (Unknown_preset (preset_name_gif a)) @
      status (truthy (arg_silent a)) Available_presets @
      list_names (palettes w) (truthy (arg_silent a)) (truthy (arg_v a)) (names (palettes w))"
  using palette_stage_unknown [OF assms, of "arg_palette a"]
  by (simp add: dither_gif_def Let_def listPresets_def js_or_def)

lemma unknown_gif_facts:
  assumes "truthy (preset_name_gif a)" "entry (palettes w) (preset_name_gif a) = Missing"
  shows "\<not> list_ex beyond_console (dither_gif w a)"
    and "given_palettes (dither_gif w a) = []"
    and "if truthy (arg_silent a) then \<not> list_ex is_print (dither_gif w a)
         else hd (dither_gif w a) = Print (Unknown_preset (preset_name_gif a))"
proof -
  note run = unknown_gif [OF assms]
  show c: "\<not> list_ex beyond_console (dither_gif w a)"
    using list_names_console [of "palettes w" "truthy (arg_silent a)" "truthy (arg_v a)" "names (palettes w)"]
    by (simp add: run status_def)
  then show "given_palettes (dither_gif w a) = []" by (rule given_palettes_console)
  show "if truthy (arg_silent a) then \<not> list_ex is_print (dither_gif w a)
        else hd (dither_gif w a) = Print (Unknown_preset (preset_name_gif a))"
    using list_names_quiet [of "palettes w" "truthy (arg_v a)" "names (palettes w)"]
    by (simp add: run status_def)
qed

subsection \<open>No palette given\<close>

text \<open>
  Claim C2, as amended. \<open>dither\<close> has no failure for an empty palette. When neither
  \<open>--palette\<close> nor \<open>--preset\<close> is given, the selected palette is the empty list, and for
  an image of positive width and height, once the canvas is created and the image drawn
  on it, the run hands the empty palette to the \<open>RgbQuant\<close> constructor and throws nothing
  of its own. Whether the run goes further is the libraries' answer: if the constructor,
  \<open>sample\<close>, \<open>palette\<close>, \<open>reduce\<close>, the copy into the canvas and the write of the file all
  return, the run calls \<open>reduce\<close> and writes the output file. Nothing is stated for an
  image of width or height zero.
\<close>

theorem empty_palette_is_quantized:
  assumes "arg_palette a = Undefined" "arg_preset a = Undefined"
    and "arg_i a = Str f" "f \<noteq> []" "loadImage w (Str f) = Some (iw, ih)" "0 < iw" "0 < ih"
    and "canvas_size (toNumber w) a (iw, ih) = (cw, ch)"
    and "returns w (Create_canvas cw ch)" "returns w (Draw_image cw ch)"
  shows "given_palettes (dither_index w a) = [[]]
       \<and> Throw TypeError \<notin> set (dither_index w a)
       \<and> (list_all (returns w)
            (quantizing a [] cw ch @
             [Write_png (if truthy (arg_o a) then Given (arg_o a) else Suffixed (Str f) ''-dither.png'')])
          \<longrightarrow> Quant_reduce \<in> set (dither_index w a)
            \<and> Write_png (if truthy (arg_o a) then Given (arg_o a) else Suffixed (Str f) ''-dither.png'')
                 \<in> set (dither_index w a))"
proof -
  have "palette_stage (palettes w) (arg_palette a) (arg_preset a) = Selected (Colors [])"
    using assms(1,2) by (simp add: palette_stage_default)
  from dither_index_selected [OF this assms(3-5)]
  have run: "dither_index w a =
      [Print (Dithering (Str f)), Stat_input (Str f),
       Print (case statSync w (Str f) of Some n \<Rightarrow> Input_size n | None \<Rightarrow> Could_not_read (Str f)),
       Load_image (Str f)] @ on_image_index w a (Colors []) (Str f) (iw, ih)" .
  note canvas = assms(8-10)
  show ?thesis
    using given_palettes_on_image_index [OF canvas, of "[]" "Str f"]
      no_throw_on_image_index [OF canvas, of TypeError "[]" "Str f"]
      all_return [OF canvas, of "[]" "Str f"]
    by (simp add: run)
qed

text \<open>
  The theorem at the command line \<open>-i in.png\<close> and an image of 2 by 2 pixels, in a world
  where every library call returns.
\<close>

theorem empty_palette_is_quantized_witness:
  "arg_palette plain_args = Undefined \<and> arg_preset plain_args = Undefined
   \<and> arg_i plain_args = Str ''in.png''
   \<and> loadImage sample_world (Str ''in.png'') = Some (2, 2)
   \<and> canvas_size (toNumber sample_world) plain_args (2, 2) = (Fin 2, Fin 2)
   \<and> returns sample_world (Create_canvas (Fin 2) (Fin 2))
   \<and> returns sample_world (Draw_image (Fin 2) (Fin 2))
   \<and> list_all (returns sample_world)
        (quantizing plain_args [] (Fin 2) (Fin 2) @ [Write_png (Suffixed (Str ''in.png'') ''-dither.png'')])
   \<and> given_palettes (dither_index sample_world plain_args) = [[]]
   \<and> Throw TypeError \<notin> set (dither_index sample_world plain_args)
   \<and> Quant_reduce \<in> set (dither_index sample_world plain_args)
   \<and> Write_png (Suffixed (Str ''in.png'') ''-dither.png'') \<in> set (dither_index sample_world plain_args)"
proof -
  have sc: "\<not> truthy (js_or (arg_s plain_args) (arg_scale plain_args))"
    by (simp add: plain_args_def no_args_def js_or_def)
  note cv = sample_canvas [OF sc]
  have rt: "list_all (returns sample_world)
        (quantizing plain_args [] (Fin 2) (Fin 2) @ [Write_png (Suffixed (Str ''in.png'') ''-dither.png'')])"
    by (simp add: quantizing_def sample_returns)
  from empty_palette_is_quantized
    [of plain_args "''in.png''" sample_world 2 2 "Fin 2" "Fin 2"] cv rt
  show ?thesis
    by (simp add: plain_args_def no_args_def sample_world_def)
qed

text \<open>
  Claim C2 as stated fails: with only \<open>-i in.png\<close> the run is not stopped by an empty
  palette; it builds the quantizer with the palette \<open>[]\<close>, reduces the image and writes
  \<open>in.png-dither.png\<close>.
\<close>

theorem empty_palette_run:
  "dither_index sample_world plain_args =
     [Print (Dithering (Str ''in.png'')), Stat_input (Str ''in.png''), Print (Input_size 1000),
      Load_image (Str ''in.png''),
      Create_canvas (Fin 2) (Fin 2), Draw_image (Fin 2) (Fin 2),
      New_RgbQuant \<lparr>dithSerp = Bool False, palette = []\<rparr>,
      Quant_sample, Quant_palette, Quant_reduce,
      Put_image_data (Fin 2) (Fin 2),
      Write_png (Suffixed (Str ''in.png'') ''-dither.png''),
      Stat_output (Suffixed (Str ''in.png'') ''-dither.png''),
      Print (Output_size 500),
      Print (Palette_line ''#000000,#ffffff''),
      Print (Dithered_line (Suffixed (Str ''in.png'') ''-dither.png''))]"
  using sample_run [of plain_args "[]"]
  by (simp add: plain_args_def no_args_def palette_stage_default)

subsection \<open>An explicit palette\<close>




text \<open>
  Claim C4, as amended. Let \<open>--palette\<close> be truthy and a preset name be given
  (\<open>--preset\<close> for \<open>index.js\<close>; \<open>--preset\<close> or else \<open>-p\<close> for the GIF entry point),
  with an input that can be stat'ed and loads and a canvas that is created and drawn.
  \<^item> If the read \<open>palettes[name]\<close> is \<open>undefined\<close>, the explicit list is not used:
    \<open>index.js\<close> prints the unknown name and the available names and returns; the GIF
    entry point makes no call beyond the console, builds no quantizer, and prints the
    unknown name first unless \<open>--silent\<close> is given, when it prints nothing.
  \<^item> Otherwise (the name reads a preset, or a member every object inherits), the
    palette handed to the quantizer is the explicit list, split at the commas and
    converted by \<open>hexToRgb\<close>, when \<open>--palette\<close> is a string; when it is not a string,
    \<open>split\<close> throws a \<open>TypeError\<close> and the run does nothing else.
\<close>

theorem explicit_list_precedence:
  assumes "truthy (arg_palette a)"
    and "arg_i a = Str f" "f \<noteq> []" "statSync w (Str f) = Some n" "loadImage w (Str f) = Some img"
    and "canvas_size (toNumber w) a img = (cw, ch)"
    and "returns w (Create_canvas cw ch)" "returns w (Draw_image cw ch)"
  shows "(truthy (arg_preset a) \<longrightarrow>
           (if entry (palettes w) (arg_preset a) = Missing
            then dither_index w a =
                   Print (Unknown_preset (arg_preset a)) # Print Available_presets #
                   map (\<lambda>n. Print (Preset_name n)) (names (palettes w))
            else case arg_palette a of
                   Str s \<Rightarrow> given_palettes (dither_index w a) = [map hexToRgb (split_comma s)]
                 | _ \<Rightarrow> dither_index w a = [Throw TypeError]))
       \<and> (truthy (preset_name_gif a) \<longrightarrow>
           (if entry (palettes w) (preset_name_gif a) = Missing
            then \<not> list_ex beyond_console (dither_gif w a)
               \<and> given_palettes (dither_gif w a) = []
               \<and> (if truthy (arg_silent a) then \<not> list_ex is_print (dither_gif w a)
                   else hd (dither_gif w a) = Print (Unknown_preset (preset_name_gif a)))
            else case arg_palette a of
                   Str s \<Rightarrow> given_palettes (dither_gif w a) = [map hexToRgb (split_comma s)]
                 | _ \<Rightarrow> dither_gif w a = [Throw TypeError]))"
proof -
  note canvas = assms(6-8)
  have known: "(case arg_palette a of
         Str s \<Rightarrow> given_palettes (dither_index w a) = [map hexToRgb (split_comma s)]
       | _ \<Rightarrow> dither_index w a = [Throw TypeError])"
    if g: "\<not> (truthy (arg_preset a) \<and> entry (palettes w) (arg_preset a) = Missing)"
  proof (cases "is_str (arg_palette a)")
    case True
    then obtain s where s: "arg_palette a = Str s" by (cases "arg_palette a") simp_all
    with assms(1) have "s \<noteq> []" by simp
    then have "palette_stage (palettes w) (arg_palette a) (arg_preset a) =
        Selected (Colors (split_comma s))"
      using g by (simp add: s palette_stage_explicit)
    from dither_index_selected [OF this assms(2,3,5)] show ?thesis
      by (simp add: s given_palettes_on_image_index [OF canvas])
  next
    case False
    from palette_stage_not_string [OF assms(1) False g]
    have "dither_index w a = [Throw TypeError]" by (rule dither_index_raised)
    with False show ?thesis by (cases "arg_palette a") simp_all
  qed
  have known_gif: "(case arg_palette a of
         Str s \<Rightarrow> given_palettes (dither_gif w a) = [map hexToRgb (split_comma s)]
       | _ \<Rightarrow> dither_gif w a = [Throw TypeError])"
    if g: "\<not> (truthy (preset_name_gif a) \<and> entry (palettes w) (preset_name_gif a) = Missing)"
  proof (cases "is_str (arg_palette a)")
    case True
    then obtain s where s: "arg_palette a = Str s" by (cases "arg_palette a") simp_all
    with assms(1) have "s \<noteq> []" by simp
    then have "palette_stage (palettes w) (arg_palette a) (preset_name_gif a) =
        Selected (Colors (split_comma s))"
      using g by (simp add: s palette_stage_explicit)
    from dither_gif_selected [OF this assms(2-5)] show ?thesis
      by (simp add: s given_palettes_append given_palettes_status
            given_palettes_on_image_gif [OF canvas])
  next
    case False
    from palette_stage_not_string [OF assms(1) False g]
    have "dither_gif w a = [Throw TypeError]" by (rule dither_gif_raised)
    with False show ?thesis by (cases "arg_palette a") simp_all
  qed
  show ?thesis
    using known known_gif unknown_index [of a w] unknown_gif_facts [of a w]
    by simp
qed

text \<open>
  The theorem at \<open>--palette="#ff0000" --preset=mono\<close>, at
  \<open>--palette="#000000,#ffffff" --preset=nope\<close> and at \<open>--palette=123456 -p mono\<close>.
\<close>

theorem explicit_list_precedence_witness:
  "truthy (arg_palette override_args) \<and> truthy (arg_preset override_args)
   \<and> entry (palettes sample_world) (arg_preset override_args) = Hex_list [''#000000'', ''#ffffff'']
   \<and> given_palettes (dither_index sample_world override_args) = [[Some [255, 0, 0]]]
   \<and> given_palettes (dither_gif sample_world override_args) = [[Some [255, 0, 0]]]
   \<and> truthy (arg_palette clash_args) \<and> truthy (arg_preset clash_args)
   \<and> entry (palettes sample_world) (arg_preset clash_args) = Missing
   \<and> dither_index sample_world clash_args =
       [Print (Unknown_preset (Str ''nope'')), Print Available_presets, Print (Preset_name ''mono'')]
   \<and> \<not> list_ex beyond_console (dither_gif sample_world clash_args)
   \<and> given_palettes (dither_gif sample_world clash_args) = []
   \<and> hd (dither_gif sample_world clash_args) = Print (Unknown_preset (Str ''nope''))
   \<and> truthy (arg_palette (numeric_args\<lparr>arg_p := Str ''mono''\<rparr>))
   \<and> truthy (preset_name_gif (numeric_args\<lparr>arg_p := Str ''mono''\<rparr>))
   \<and> dither_gif sample_world (numeric_args\<lparr>arg_p := Str ''mono''\<rparr>) = [Throw TypeError]"
proof -
  have sc: "\<not> truthy (js_or (arg_s override_args) (arg_scale override_args))"
    "\<not> truthy (js_or (arg_s clash_args) (arg_scale clash_args))"
    "\<not> truthy (js_or (arg_s (numeric_args\<lparr>arg_p := Str ''mono''\<rparr>))
                      (arg_scale (numeric_args\<lparr>arg_p := Str ''mono''\<rparr>)))"
    by (simp_all add: override_args_def clash_args_def numeric_args_def no_args_def js_or_def)
  note cv = sample_canvas [OF sc(1)] sample_canvas [OF sc(2)] sample_canvas [OF sc(3)]
  from explicit_list_precedence
      [of override_args "''in.png''" sample_world 1000 "(2, 2)" "Fin 2" "Fin 2"]
    explicit_list_precedence
      [of clash_args "''in.png''" sample_world 1000 "(2, 2)" "Fin 2" "Fin 2"]
    explicit_list_precedence
      [of "numeric_args\<lparr>arg_p := Str ''mono''\<rparr>" "''in.png''" sample_world 1000 "(2, 2)" "Fin 2" "Fin 2"]
    cv
  show ?thesis
    by (simp add: override_args_def clash_args_def numeric_args_def no_args_def sample_world_def
          sample_table_def hexToRgb_red preset_name_gif_def js_or_def)
qed

text \<open>
  Claim C4 as stated fails: with \<open>--palette="#000000,#ffffff" --preset=nope\<close> both entry
  points only print the unknown preset and the list of names.
\<close>

theorem unknown_preset_beats_explicit_list:
  "dither_index sample_world clash_args =
     [Print (Unknown_preset (Str ''nope'')), Print Available_presets, Print (Preset_name ''mono'')]
   \<and> dither_gif sample_world clash_args =
     [Print (Unknown_preset (Str ''nope'')), Print Available_presets, Print (Preset_name ''mono'')]"
  by (simp add: dither_index_def dither_gif_def preset_name_index_def preset_name_gif_def
        palette_stage_def preset_unknown_def js_or_def listPresets_def Let_def
        clash_args_def no_args_def sample_world_def sample_table_def status_def)

subsection \<open>An unknown preset\<close>

text \<open>
  Claim C6, as amended. For every truthy preset name whose read \<open>palettes[name]\<close> is
  \<open>undefined\<close>, \<open>dither\<close> returns without any call beyond the console (no image is
  loaded, nothing is quantized or written). \<open>index.js\<close> prints the unknown name, then
  the available names; the GIF entry point, whose name is \<open>--preset\<close> or else \<open>-p\<close>,
  prints the unknown name first unless \<open>--silent\<close> is given, and then it prints
  nothing. A name that is no preset but reads a member every object inherits
  (\<open>constructor\<close>, \<open>toString\<close>, \<open>__proto__\<close>) is not covered: the guard lets it pass.
\<close>

theorem unknown_preset_aborts:
  "(truthy (arg_preset a) \<and> entry (palettes w) (arg_preset a) = Missing \<longrightarrow>
      dither_index w a =
        Print (Unknown_preset (arg_preset a)) # Print Available_presets #
        map (\<lambda>n. Print (Preset_name n)) (names (palettes w)))
   \<and> (truthy (preset_name_gif a) \<and> entry (palettes w) (preset_name_gif a) = Missing \<longrightarrow>
        \<not> list_ex beyond_console (dither_gif w a)
      \<and> (if truthy (arg_silent a) then \<not> list_ex is_print (dither_gif w a)
          else hd (dither_gif w a) = Print (Unknown_preset (preset_name_gif a))))"
  using unknown_index [of a w] unknown_gif_facts(1,3) [of a w] by blast

text \<open>
  The theorem at \<open>--preset=nope\<close> for \<open>index.js\<close>, and at \<open>-p nope\<close> and at
  \<open>--preset=nope --silent\<close> for the GIF entry point.
\<close>

theorem unknown_preset_aborts_witness:
  "truthy (arg_preset (no_args\<lparr>arg_preset := Str ''nope''\<rparr>))
   \<and> entry (palettes sample_world) (arg_preset (no_args\<lparr>arg_preset := Str ''nope''\<rparr>)) = Missing
   \<and> dither_index sample_world (no_args\<lparr>arg_preset := Str ''nope''\<rparr>) =
       [Print (Unknown_preset (Str ''nope'')), Print Available_presets, Print (Preset_name ''mono'')]
   \<and> truthy (preset_name_gif (no_args\<lparr>arg_p := Str ''nope''\<rparr>))
   \<and> entry (palettes sample_world) (preset_name_gif (no_args\<lparr>arg_p := Str ''nope''\<rparr>)) = Missing
   \<and> \<not> list_ex beyond_console (dither_gif sample_world (no_args\<lparr>arg_p := Str ''nope''\<rparr>))
   \<and> hd (dither_gif sample_world (no_args\<lparr>arg_p := Str ''nope''\<rparr>)) = Print (Unknown_preset (Str ''nope''))
   \<and> truthy (arg_silent silent_unknown_args)
   \<and> \<not> list_ex is_print (dither_gif sample_world silent_unknown_args)"
  using unknown_preset_aborts [of "no_args\<lparr>arg_preset := Str ''nope''\<rparr>" sample_world]
    unknown_preset_aborts [of "no_args\<lparr>arg_p := Str ''nope''\<rparr>" sample_world]
    unknown_preset_aborts [of silent_unknown_args sample_world]
  by (simp add: no_args_def sample_world_def sample_table_def preset_name_gif_def js_or_def
        silent_unknown_args_def)

text \<open>
  Claim C6 as stated fails: with \<open>--preset=nope --silent\<close> the GIF entry point reports
  nothing at all.
\<close>

theorem silent_unknown_preset_prints_nothing:
  "dither_gif sample_world silent_unknown_args = []"
  by (simp add: dither_gif_def silent_unknown_args_def no_args_def sample_world_def
        sample_table_def palette_stage_def preset_unknown_def preset_name_gif_def js_or_def
        listPresets_def status_def)

text \<open>
  With \<open>--preset=constructor -i in.png\<close> the guard of \<open>index.js\<close> passes: the image is
  loaded and drawn, and the run ends when \<open>palette.map\<close> throws.
\<close>

lemma inherited_member_run:
  "dither_index sample_world (no_args\<lparr>arg_preset := Str ''constructor'', arg_i := Str ''in.png''\<rparr>) =
     [Print (Dithering (Str ''in.png'')), Stat_input (Str ''in.png''), Print (Input_size 1000),
      Load_image (Str ''in.png''),
      Create_canvas (Fin 2) (Fin 2), Draw_image (Fin 2) (Fin 2), Throw TypeError]"
proof -
  have sc: "\<not> truthy (js_or (arg_s (no_args\<lparr>arg_preset := Str ''constructor'', arg_i := Str ''in.png''\<rparr>))
      (arg_scale (no_args\<lparr>arg_preset := Str ''constructor'', arg_i := Str ''in.png''\<rparr>)))"
    by (simp add: no_args_def js_or_def)
  have "palette_stage (palettes sample_world)
      (arg_palette (no_args\<lparr>arg_preset := Str ''constructor'', arg_i := Str ''in.png''\<rparr>))
      (arg_preset (no_args\<lparr>arg_preset := Str ''constructor'', arg_i := Str ''in.png''\<rparr>)) =
      Selected Member"
    by (simp add: no_args_def sample_world_def sample_table_def palette_stage_def
          preset_unknown_def select_palette_def explicit_colors_def preset_colors_def)
  then have "dither_index sample_world (no_args\<lparr>arg_preset := Str ''constructor'', arg_i := Str ''in.png''\<rparr>) =
      [Print (Dithering (Str ''in.png'')), Stat_input (Str ''in.png''),
       Print (case statSync sample_world (Str ''in.png'') of
                Some n \<Rightarrow> Input_size n | None \<Rightarrow> Could_not_read (Str ''in.png'')),
       Load_image (Str ''in.png'')] @
      on_image_index sample_world (no_args\<lparr>arg_preset := Str ''constructor'', arg_i := Str ''in.png''\<rparr>)
        Member (Str ''in.png'') (2, 2)"
    by (rule dither_index_selected) (simp_all add: sample_world_def no_args_def)
  then show ?thesis
    by (simp add: on_image_index_def sample_canvas [OF sc] sample_returns)
       (simp add: sample_world_def)
qed

subsection \<open>The two entry points\<close>

text \<open>
  After the selection the two callbacks make the same calls with the same arguments up to
  the quantizer.
\<close>

lemma given_palettes_on_image_alike:
  "given_palettes (on_image_index w a pal f img) = given_palettes (on_image_gif w a quiet pal f n img)"
proof (cases "canvas_size (toNumber w) a img")
  case (Pair cw ch)
  show ?thesis
  proof (cases "returns w (Create_canvas cw ch) \<and> returns w (Draw_image cw ch)")
    case True
    then have r: "returns w (Create_canvas cw ch)" "returns w (Draw_image cw ch)" by simp_all
    show ?thesis
    proof (cases pal)
      case (Colors cs)
      then show ?thesis
        by (simp add: given_palettes_on_image_index [OF Pair r] given_palettes_on_image_gif [OF Pair r])
    qed (simp_all add: on_image_index_def on_image_gif_def Pair r)
  next
    case False
    then show ?thesis
      by (auto simp: on_image_index_def on_image_gif_def Pair)
  qed
qed

lemma given_palettes_dither_alike:
  assumes "preset_name_gif a = arg_preset a" "statSync w (js_or (arg_i a) (Str [])) \<noteq> None"
  shows "given_palettes (dither_index w a) = given_palettes (dither_gif w a)"
proof (cases "palette_stage (palettes w) (arg_palette a) (arg_preset a)")
  case Abort_unknown_preset
  then show ?thesis
    using assms(1)
    by (simp add: dither_index_def dither_gif_def preset_name_index_def Let_def listPresets_def
          list_names_plain given_palettes_map_print given_palettes_append given_palettes_status
          given_palettes_console list_names_console)
next
  case (Raised e)
  then show ?thesis
    using assms(1) by (simp add: dither_index_def dither_gif_def preset_name_index_def Let_def)
next
  case (Selected pal)
  then show ?thesis
    using assms given_palettes_on_image_alike [of w a pal]
    by (auto simp: dither_index_def dither_gif_def preset_name_index_def Let_def
          given_palettes_append given_palettes_status split: option.splits)
qed

text \<open>
  Claim C9, as amended. The two entry points run the same guard and the same selection
  on the same palette option, and they use the same preset name whenever \<open>--preset\<close> is
  truthy, or \<open>--preset\<close> and \<open>-p\<close> are both absent (only the GIF entry point reads
  \<open>-p\<close>); then they abort alike or select the same palette, and, when the input file can
  be stat'ed, a run of either hands the same palette to the quantizer.
\<close>

theorem entry_points_select_alike:
  assumes "truthy (arg_preset a) \<or> (arg_preset a = Undefined \<and> arg_p a = Undefined)"
  shows "palette_stage (palettes w) (arg_palette a) (preset_name_index a) =
         palette_stage (palettes w) (arg_palette a) (preset_name_gif a)
       \<and> (statSync w (js_or (arg_i a) (Str [])) \<noteq> None \<longrightarrow>
            given_palettes (dither_index w a) = given_palettes (dither_gif w a))"
proof -
  from assms have "preset_name_gif a = preset_name_index a"
    by (auto simp: preset_name_gif_def preset_name_index_def js_or_def)
  then show ?thesis
    using given_palettes_dither_alike [of a w] by (simp add: preset_name_index_def)
qed

text \<open>
  The theorem at \<open>--preset=mono -p nope -i in.png\<close>.
\<close>

theorem entry_points_select_alike_witness:
  "truthy (arg_preset (no_args\<lparr>arg_preset := Str ''mono'', arg_p := Str ''nope'', arg_i := Str ''in.png''\<rparr>))
   \<and> statSync sample_world (Str ''in.png'') = Some 1000
   \<and> palette_stage sample_table Undefined (Str ''mono'') = Selected (Colors [''#000000'', ''#ffffff''])
   \<and> given_palettes (dither_index sample_world
        (no_args\<lparr>arg_preset := Str ''mono'', arg_p := Str ''nope'', arg_i := Str ''in.png''\<rparr>)) =
      [[Some [0, 0, 0], Some [255, 255, 255]]]
   \<and> given_palettes (dither_gif sample_world
        (no_args\<lparr>arg_preset := Str ''mono'', arg_p := Str ''nope'', arg_i := Str ''in.png''\<rparr>)) =
      [[Some [0, 0, 0], Some [255, 255, 255]]]"
proof -
  let ?a = "no_args\<lparr>arg_preset := Str ''mono'', arg_p := Str ''nope'', arg_i := Str ''in.png''\<rparr>"
  have sc: "\<not> truthy (js_or (arg_s ?a) (arg_scale ?a))" by (simp add: no_args_def js_or_def)
  have st: "palette_stage (palettes sample_world) (arg_palette ?a) (preset_name_gif ?a) =
      Selected (Colors [''#000000'', ''#ffffff''])"
    by (simp add: no_args_def sample_world_def sample_table_def palette_stage_def
          preset_unknown_def select_palette_def explicit_colors_def preset_colors_def
          preset_name_gif_def js_or_def)
  have "dither_gif sample_world ?a =
      status (truthy (arg_silent ?a)) (Dithering (Str ''in.png'')) @ [Stat_input (Str ''in.png'')] @
      status (truthy (arg_silent ?a)) (Input_size 1000) @ [Load_image (Str ''in.png'')] @
      on_image_gif sample_world ?a (truthy (arg_silent ?a)) (Colors [''#000000'', ''#ffffff''])
        (Str ''in.png'') 1000 (2, 2)"
    using st by (rule dither_gif_selected) (simp_all add: no_args_def sample_world_def)
  then have gif: "given_palettes (dither_gif sample_world ?a) = [[Some [0, 0, 0], Some [255, 255, 255]]]"
    by (simp add: given_palettes_append given_palettes_status
          given_palettes_on_image_gif [OF sample_canvas [OF sc] sample_returns(2,3)]
          hexToRgb_def is_hex_digit_def parseInt16_def hex_val_def)
  from entry_points_select_alike [of ?a sample_world] gif
  show ?thesis
    by (simp add: no_args_def sample_world_def sample_table_def palette_stage_def
          preset_unknown_def select_palette_def explicit_colors_def preset_colors_def
          preset_name_index_def preset_name_gif_def js_or_def)
qed

text \<open>
  Claim C9 as stated fails: with \<open>-p mono\<close> alone, \<open>index.js\<close> selects the empty palette
  and the GIF entry point the preset.
\<close>

theorem entry_points_differ_on_p:
  "palette_stage sample_table (arg_palette alias_args) (preset_name_index alias_args) =
     Selected (Colors [])
   \<and> palette_stage sample_table (arg_palette alias_args) (preset_name_gif alias_args) =
     Selected (Colors [''#000000'', ''#ffffff''])"
  by (simp add: alias_args_def no_args_def sample_table_def palette_stage_def preset_unknown_def
        select_palette_def explicit_colors_def preset_colors_def preset_name_index_def
        preset_name_gif_def js_or_def)

end
